theory Spec2Isabelle
  imports Complex_Main "HOL-Library.AList"
begin

section \<open>WHO growth z-score service: the two \<open>compute_z\<close> entry points\<close>

text \<open>
  The repository holds two FastAPI modules, \<^verbatim>\<open>src/api/zscore.py\<close> and
  \<^verbatim>\<open>src/main.py\<close>. Each loads a dictionary \<^verbatim>\<open>tables\<close> of pandas data frames
  at import time and serves one handler \<^verbatim>\<open>compute_z\<close>.

  Conventions of the embedding.
  \<^item> A Python float is an IEEE binary64 value: \<open>Fin r\<close> for the finite double of
    value \<open>r\<close>, the two infinities and NaN. The two zeros are one value \<open>Fin 0\<close>;
    the handlers never tell them apart. Division, multiplication and subtraction round the
    exact result to the nearest double (ties to even), overflow to an infinity and underflow
    to zero, as the hardware does. The C library's \<^verbatim>\<open>pow\<close> is not specified to the
    last bit, so it is a parameter \<open>c_pow\<close> of everything that evaluates \<^verbatim>\<open>**\<close>.
  \<^item> A raised exception is a value \<open>Inl e\<close>; what the handler returns is \<open>Inr r\<close>.
    \<^verbatim>\<open>HTTPException\<close> carries its status code and detail; the other constructors are
    the built-in exceptions that escape the handler.
  \<^item> The handler assigns to a column of a data frame held in the module-level dictionary,
    so the dictionary is passed in and returned.
  \<^item> The CSV files are not part of the sources: \<^verbatim>\<open>pd.read_csv\<close> is a parameter
    \<open>read_csv\<close> from file names to data frames.
  \<^item> Strings are byte strings; \<^verbatim>\<open>str.upper\<close> and \<^verbatim>\<open>str.lower\<close> act on
    the ASCII letters.
\<close>

subsection \<open>Python floats and exceptions\<close>

datatype pyfloat = Fin real | PInf | NInf | NaN

text \<open>
  The value of \<^verbatim>\<open>(meas / M) ** L\<close> can be a Python \<^verbatim>\<open>complex\<close> (negative base,
  fractional exponent). Nothing ever reads the components of such a value: it only flows
  through \<^verbatim>\<open>- 1\<close> and \<^verbatim>\<open>/ (L * S)\<close> into \<^verbatim>\<open>round\<close>, which rejects it.
\<close>

datatype pynum = Flt pyfloat | Cplx

datatype error =
    HTTPException nat string
  | ZeroDivisionError
  | OverflowError
  | TypeError
  | KeyError
  | IndexError
  | ValueError

text \<open>Rounding a real to the nearest integer, a tie going to the even one.\<close>

definition round_half_even :: "real \<Rightarrow> int" where
  "round_half_even x =
     (let f = \<lfloor>x\<rfloor>; d = x - of_int f
      in if d < 1 / 2 then f
         else if 1 / 2 < d then f + 1
         else if even f then f else f + 1)"

text \<open>
  Rounding a real to binary64, to nearest with ties to even. A nonzero \<open>x\<close> with
  \<open>2 ^ e \<le> |x| < 2 ^ (e + 1)\<close> is rounded to a multiple of \<open>2 ^ (e - 52)\<close> (53
  significant bits); below \<open>2 ^ - 1022\<close> the spacing stays \<open>2 ^ - 1074\<close> (subnormal
  numbers, underflow to zero); a rounded magnitude of \<open>2 ^ 1024\<close> or more is an infinity.
\<close>

definition binary64 :: "real \<Rightarrow> pyfloat" where
  "binary64 x =
     (if x = 0 then Fin 0
      else let e = max \<lfloor>log 2 \<bar>x\<bar>\<rfloor> (- 1022);
               q = power_int 2 (e - 52);
               r = of_int (round_half_even (x / q)) * q
           in if 2 ^ 1024 \<le> \<bar>r\<bar> then (if 0 < x then PInf else NInf) else Fin r)"

text \<open>
  \<^verbatim>\<open>a / b\<close> on floats: a zero divisor raises, whatever the dividend; otherwise the
  IEEE quotient.
\<close>

definition float_truediv :: "pyfloat \<Rightarrow> pyfloat \<Rightarrow> error + pyfloat" where
  "float_truediv a b =
     (case b of
        NaN \<Rightarrow> Inr NaN
      | Fin y \<Rightarrow>
          if y = 0 then Inl ZeroDivisionError
          else (case a of
                  NaN \<Rightarrow> Inr NaN
                | Fin x \<Rightarrow> Inr (binary64 (x / y))
                | PInf \<Rightarrow> Inr (if 0 < y then PInf else NInf)
                | NInf \<Rightarrow> Inr (if 0 < y then NInf else PInf))
      | _ \<Rightarrow> (case a of Fin x \<Rightarrow> Inr (Fin 0) | _ \<Rightarrow> Inr NaN))"

text \<open>\<^verbatim>\<open>a * b\<close> on floats: the IEEE product.\<close>

definition float_mul :: "pyfloat \<Rightarrow> pyfloat \<Rightarrow> pyfloat" where
  "float_mul a b =
     (case a of
        NaN \<Rightarrow> NaN
      | Fin x \<Rightarrow>
          (case b of
             NaN \<Rightarrow> NaN
           | Fin y \<Rightarrow> binary64 (x * y)
           | PInf \<Rightarrow> if x = 0 then NaN else if 0 < x then PInf else NInf
           | NInf \<Rightarrow> if x = 0 then NaN else if 0 < x then NInf else PInf)
      | PInf \<Rightarrow>
          (case b of
             NaN \<Rightarrow> NaN
           | Fin y \<Rightarrow> if y = 0 then NaN else if 0 < y then PInf else NInf
           | PInf \<Rightarrow> PInf
           | NInf \<Rightarrow> NInf)
      | NInf \<Rightarrow>
          (case b of
             NaN \<Rightarrow> NaN
           | Fin y \<Rightarrow> if y = 0 then NaN else if 0 < y then NInf else PInf
           | PInf \<Rightarrow> NInf
           | NInf \<Rightarrow> PInf))"

text \<open>\<^verbatim>\<open>x - 1\<close> on a float and on the value of the power.\<close>

definition float_sub1 :: "pyfloat \<Rightarrow> pyfloat" where
  "float_sub1 a = (case a of Fin x \<Rightarrow> binary64 (x - 1) | _ \<Rightarrow> a)"

definition num_sub1 :: "pynum \<Rightarrow> pynum" where
  "num_sub1 x = (case x of Flt a \<Rightarrow> Flt (float_sub1 a) | Cplx \<Rightarrow> Cplx)"

text \<open>
  \<^verbatim>\<open>v ** w\<close> on floats, in the order of CPython's \<^verbatim>\<open>float_pow\<close>: a zero exponent
  gives 1.0 first (also for a NaN base), then NaN operands, then an infinite exponent, an
  infinite base, a zero base (which raises for a negative exponent), a negative base
  (complex result unless the exponent is integral) and a base of magnitude one. Only then
  is the C library's \<^verbatim>\<open>pow\<close> called, on a positive base; if its result is infinite,
  \<^verbatim>\<open>OverflowError\<close> is raised. The complex power of a negative base calls the same
  \<^verbatim>\<open>pow\<close> for the modulus and raises \<^verbatim>\<open>OverflowError\<close> when that overflows.

  \<open>c_pow x y\<close> stands for the C library's \<^verbatim>\<open>pow(x, y)\<close> on a finite \<open>x > 0\<close> and
  a finite \<open>y\<close>: the finite double it returns, or \<open>None\<close> when it returns infinity.
\<close>

definition is_odd_integer :: "real \<Rightarrow> bool" where
  "is_odd_integer y = (y = of_int \<lfloor>y\<rfloor> \<and> odd \<lfloor>y\<rfloor>)"

definition finite_pow :: "(real \<Rightarrow> real \<Rightarrow> real option) \<Rightarrow> real \<Rightarrow> real \<Rightarrow> error + pynum" where
  "finite_pow c_pow x y =
     (if x = 0 then (if y < 0 then Inl ZeroDivisionError else Inr (Flt (Fin 0)))
      else if x < 0 then
        (if y \<noteq> of_int \<lfloor>y\<rfloor> then
           (case c_pow (- x) y of None \<Rightarrow> Inl OverflowError | Some p \<Rightarrow> Inr Cplx)
         else if x = - 1 then Inr (Flt (Fin (if is_odd_integer y then - 1 else 1)))
         else (case c_pow (- x) y of
                 None \<Rightarrow> Inl OverflowError
               | Some p \<Rightarrow> Inr (Flt (Fin (if is_odd_integer y then - p else p)))))
      else if x = 1 then Inr (Flt (Fin 1))
      else (case c_pow x y of None \<Rightarrow> Inl OverflowError | Some p \<Rightarrow> Inr (Flt (Fin p))))"

definition float_pow ::
    "(real \<Rightarrow> real \<Rightarrow> real option) \<Rightarrow> pyfloat \<Rightarrow> pyfloat \<Rightarrow> error + pynum" where
  "float_pow c_pow v w =
     (case w of
        NaN \<Rightarrow> Inr (Flt (if v = Fin 1 then Fin 1 else NaN))
      | PInf \<Rightarrow>
          (case v of
             NaN \<Rightarrow> Inr (Flt NaN)
           | Fin x \<Rightarrow>
               Inr (Flt (if \<bar>x\<bar> = 1 then Fin 1 else if 1 < \<bar>x\<bar> then PInf else Fin 0))
           | _ \<Rightarrow> Inr (Flt PInf))
      | NInf \<Rightarrow>
          (case v of
             NaN \<Rightarrow> Inr (Flt NaN)
           | Fin x \<Rightarrow>
               Inr (Flt (if \<bar>x\<bar> = 1 then Fin 1 else if 1 < \<bar>x\<bar> then Fin 0 else PInf))
           | _ \<Rightarrow> Inr (Flt (Fin 0)))
      | Fin y \<Rightarrow>
          if y = 0 then Inr (Flt (Fin 1))
          else (case v of
                  NaN \<Rightarrow> Inr (Flt NaN)
                | PInf \<Rightarrow> Inr (Flt (if 0 < y then PInf else Fin 0))
                | NInf \<Rightarrow>
                    Inr (Flt (if 0 < y then (if is_odd_integer y then NInf else PInf)
                              else Fin 0))
                | Fin x \<Rightarrow> finite_pow c_pow x y))"

text \<open>\<^verbatim>\<open>x / d\<close> where \<open>x\<close> is a float or a complex and \<open>d\<close> a float.\<close>

definition num_truediv :: "pynum \<Rightarrow> pyfloat \<Rightarrow> error + pynum" where
  "num_truediv x d =
     (case x of
        Flt a \<Rightarrow> (case float_truediv a d of Inl e \<Rightarrow> Inl e | Inr q \<Rightarrow> Inr (Flt q))
      | Cplx \<Rightarrow> if d = Fin 0 then Inl ZeroDivisionError else Inr Cplx)"

text \<open>
  \<^verbatim>\<open>round(z, 1)\<close> on a float: the double nearest to the multiple of one tenth that
  is nearest to \<open>z\<close>, a tie going to the even tenth; an infinity or NaN is returned as
  it is.
\<close>

definition float_round1 :: "pyfloat \<Rightarrow> pyfloat" where
  "float_round1 z =
     (case z of
        Fin a \<Rightarrow> binary64 (of_int (round_half_even (a * 10)) / 10)
      | _ \<Rightarrow> z)"

text \<open>\<^verbatim>\<open>z < c\<close> and \<^verbatim>\<open>z <= c\<close> for an integer literal \<open>c\<close>: false on NaN.\<close>

definition float_lt :: "pyfloat \<Rightarrow> real \<Rightarrow> bool" where
  "float_lt z c = (case z of Fin a \<Rightarrow> a < c | NInf \<Rightarrow> True | _ \<Rightarrow> False)"

definition float_le :: "pyfloat \<Rightarrow> real \<Rightarrow> bool" where
  "float_le z c = (case z of Fin a \<Rightarrow> a \<le> c | NInf \<Rightarrow> True | _ \<Rightarrow> False)"

subsection \<open>Strings\<close>

text \<open>
  \<^verbatim>\<open>str.upper\<close> and \<^verbatim>\<open>str.lower\<close> replace each ASCII letter by its
  counterpart in the other alphabet and leave every other character as it is.
\<close>

definition ascii_lowercase :: string where
  "ascii_lowercase = ''abcdefghijklmnopqrstuvwxyz''"

definition ascii_uppercase :: string where
  "ascii_uppercase = ''ABCDEFGHIJKLMNOPQRSTUVWXYZ''"

definition upper_char :: "char \<Rightarrow> char" where
  "upper_char c =
     (case map_of (zip ascii_lowercase ascii_uppercase) c of None \<Rightarrow> c | Some u \<Rightarrow> u)"

definition lower_char :: "char \<Rightarrow> char" where
  "lower_char c =
     (case map_of (zip ascii_uppercase ascii_lowercase) c of None \<Rightarrow> c | Some l \<Rightarrow> l)"

definition upper :: "string \<Rightarrow> string" where
  "upper s = map upper_char s"

definition lower :: "string \<Rightarrow> string" where
  "lower s = map lower_char s"

subsection \<open>Data frames\<close>

text \<open>
  A cell as \<^verbatim>\<open>pd.read_csv\<close> leaves it: a finite double, a missing value, or (in a column
  that is not numeric throughout) a piece of text. The text itself is never inspected by
  the handler; it only passes through \<^verbatim>\<open>pd.to_numeric\<close> and \<^verbatim>\<open>float\<close>, so a
  text cell carries the number these read from it, or \<open>None\<close> if it is not a numeral.
\<close>

datatype cell = CNum real | CNaN | CText "real option"

text \<open>A data frame: its columns in order, each a name and the cells of the column.\<close>

type_synonym dataframe = "(string \<times> cell list) list"

text \<open>\<^verbatim>\<open>pd.to_numeric(series, errors="coerce")\<close>.\<close>

definition coerce_cell :: "cell \<Rightarrow> cell" where
  "coerce_cell c =
     (case c of
        CText None \<Rightarrow> CNaN
      | CText (Some r) \<Rightarrow> CNum r
      | _ \<Rightarrow> c)"

definition to_numeric :: "cell list \<Rightarrow> cell list" where
  "to_numeric series = map coerce_cell series"

text \<open>\<^verbatim>\<open>series == key\<close>: one truth value per cell; NaN equals nothing.\<close>

definition cell_eq :: "cell \<Rightarrow> pyfloat \<Rightarrow> bool" where
  "cell_eq c k =
     (case c of
        CNum r \<Rightarrow> (case k of Fin q \<Rightarrow> r = q | _ \<Rightarrow> False)
      | _ \<Rightarrow> False)"

definition series_eq :: "cell list \<Rightarrow> pyfloat \<Rightarrow> bool list" where
  "series_eq series k = map (\<lambda>c. cell_eq c k) series"

text \<open>\<^verbatim>\<open>df.loc[mask]\<close>: the rows at which the mask is true.\<close>

definition select :: "bool list \<Rightarrow> 'a list \<Rightarrow> 'a list" where
  "select flags xs = map snd (filter fst (zip flags xs))"

definition df_loc :: "dataframe \<Rightarrow> bool list \<Rightarrow> dataframe" where
  "df_loc df flags = map (\<lambda>(name, cells). (name, select flags cells)) df"

text \<open>\<^verbatim>\<open>df.empty\<close>: there is no column or no row.\<close>

definition df_empty :: "dataframe \<Rightarrow> bool" where
  "df_empty df = (case df of [] \<Rightarrow> True | (name, cells) # rest \<Rightarrow> cells = [])"

text \<open>\<^verbatim>\<open>float(x)\<close> on a cell.\<close>

definition py_float :: "cell \<Rightarrow> error + pyfloat" where
  "py_float c =
     (case c of
        CNum r \<Rightarrow> Inr (Fin r)
      | CNaN \<Rightarrow> Inr NaN
      | CText (Some r) \<Rightarrow> Inr (Fin r)
      | CText None \<Rightarrow> Inl ValueError)"

text \<open>\<^verbatim>\<open>float(row[name].values[0])\<close>.\<close>

definition first_value :: "dataframe \<Rightarrow> string \<Rightarrow> error + pyfloat" where
  "first_value row name =
     (case map_of row name of
        None \<Rightarrow> Inl KeyError
      | Some cells \<Rightarrow> (case cells of [] \<Rightarrow> Inl IndexError | c # rest \<Rightarrow> py_float c))"

subsection \<open>Request and result\<close>

text \<open>
  \<^verbatim>\<open>class ZScoreRequest(BaseModel)\<close>, the same in both modules. The field
  \<^verbatim>\<open>length\<close> is \<open>length_cm\<close> here.
\<close>

record ZScoreRequest =
  sex :: string
  indicator :: string
  years :: "int option"
  months :: "int option"
  length_cm :: "pyfloat option"
  weight :: "pyfloat option"

text \<open>The returned dictionary \<^verbatim>\<open>{"z_score": z_rounded, "classification": cat}\<close>.\<close>

record result =
  z_score :: pyfloat
  classification :: string

subsection \<open>Steps 3 to 5 of the handler\<close>

text \<open>
  The text from \<^verbatim>\<open>if row.empty\<close> to the \<^verbatim>\<open>return\<close> is the same in both modules
  (\<^verbatim>\<open>src/api/zscore.py\<close> lines 102 to 143, \<^verbatim>\<open>src/main.py\<close> lines 72 to 115).
\<close>

text \<open>Step 3: \<^verbatim>\<open>L\<close>, \<^verbatim>\<open>M\<close>, \<^verbatim>\<open>S\<close> of the first selected row, read in this order.\<close>

definition extract_lms :: "dataframe \<Rightarrow> error + (pyfloat \<times> pyfloat \<times> pyfloat)" where
  "extract_lms row =
     (case first_value row ''L'' of
        Inl e \<Rightarrow> Inl e
      | Inr L \<Rightarrow>
          (case first_value row ''M'' of
             Inl e \<Rightarrow> Inl e
           | Inr M \<Rightarrow>
               (case first_value row ''S'' of
                  Inl e \<Rightarrow> Inl e
                | Inr S \<Rightarrow> Inr (L, M, S))))"

text \<open>Step 4: \<^verbatim>\<open>z = ((meas / M) ** L - 1) / (L * S)\<close>, evaluated left to right.\<close>

definition lms_z ::
    "(real \<Rightarrow> real \<Rightarrow> real option) \<Rightarrow> pyfloat \<Rightarrow> pyfloat \<Rightarrow> pyfloat \<Rightarrow> pyfloat \<Rightarrow>
     error + pynum" where
  "lms_z c_pow meas L M S =
     (case float_truediv meas M of
        Inl e \<Rightarrow> Inl e
      | Inr q \<Rightarrow>
          (case float_pow c_pow q L of
             Inl e \<Rightarrow> Inl e
           | Inr p \<Rightarrow> num_truediv (num_sub1 p) (float_mul L S)))"

text \<open>Step 5: the three \<^verbatim>\<open>if\<close>/\<^verbatim>\<open>elif\<close> chains on the unrounded \<open>z\<close>.\<close>

definition classify :: "string \<Rightarrow> pyfloat \<Rightarrow> string" where
  "classify ind z =
     (if ind = ''length'' then
        (if float_lt z (- 3) then ''Severely stunted''
         else if float_lt z (- 2) then ''Moderately stunted''
         else if float_le z 2 then ''Normal''
         else ''Tall'')
      else if ind = ''weight'' then
        (if float_lt z (- 3) then ''Severe underweight''
         else if float_lt z (- 2) then ''Underweight''
         else if float_le z 2 then ''Normal''
         else ''Overweight'')
      else
        (if float_lt z (- 3) then ''Severe wasting''
         else if float_lt z (- 2) then ''Wasting''
         else if float_le z 2 then ''Normal''
         else ''Overweight''))"

text \<open>
  From the emptiness check to the return. \<^verbatim>\<open>round(z, 1)\<close> comes before the
  classification and raises \<^verbatim>\<open>TypeError\<close> on a complex \<open>z\<close>.
\<close>

definition score ::
    "(real \<Rightarrow> real \<Rightarrow> real option) \<Rightarrow> string \<Rightarrow> dataframe \<Rightarrow> pyfloat \<Rightarrow> error + result" where
  "score c_pow ind row meas =
     (if df_empty row then Inl (HTTPException 400 ''No data for given age or length'')
      else case extract_lms row of
        Inl e \<Rightarrow> Inl e
      | Inr (L, M, S) \<Rightarrow>
          (case lms_z c_pow meas L M S of
             Inl e \<Rightarrow> Inl e
           | Inr Cplx \<Rightarrow> Inl TypeError
           | Inr (Flt z) \<Rightarrow>
               Inr \<lparr>z_score = float_round1 z, classification = classify ind z\<rparr>))"

subsection \<open>The table dictionaries\<close>

type_synonym tables = "(string \<times> string) \<rightharpoonup> dataframe"

text \<open>\<^verbatim>\<open>src/api/zscore.py\<close>, lines 46 to 53.\<close>

definition api_tables :: "(string \<Rightarrow> dataframe) \<Rightarrow> tables" where
  "api_tables read_csv =
     [(''M'', ''length'') \<mapsto> read_csv ''WHO-Boys-Length-for-age-Percentiles_LMS.csv'',
      (''M'', ''weight'') \<mapsto> read_csv ''WHO-Boys-Weight-for-age-Percentiles_LMS.csv'',
      (''M'', ''wfl'') \<mapsto> read_csv ''WHO-Boys-Weight-for-length-Percentiles_LMS.csv'',
      (''F'', ''length'') \<mapsto> read_csv ''WHO-Girls-Length-for-age-Percentiles_LMS.csv'',
      (''F'', ''weight'') \<mapsto> read_csv ''WHO-Girls-Weight-for-age-Percentiles_LMS.csv'',
      (''F'', ''wfl'') \<mapsto> read_csv ''WHO-Girls-Weight-for-length-Percentiles_LMS.csv'']"

text \<open>\<^verbatim>\<open>src/main.py\<close>, lines 11 to 17.\<close>

definition main_tables :: "(string \<Rightarrow> dataframe) \<Rightarrow> tables" where
  "main_tables read_csv =
     [(''M'', ''length'') \<mapsto> read_csv ''WHO-Boys-Length-for-age-Percentiles_LMS.csv'',
      (''M'', ''weight'') \<mapsto> read_csv ''WHO-Boys-Weight-for-age-Percentiles_LMS.csv'',
      (''M'', ''wfl'') \<mapsto> read_csv ''WHO-Boys-Weight-for-length-Percentiles_LMS.csv'',
      (''F'', ''weight'') \<mapsto> read_csv ''WHO-Girls-Weight-for-age-Percentiles_LMS.csv'',
      (''F'', ''wfl'') \<mapsto> read_csv ''WHO-Girls-Weight-for-length-Percentiles_LMS.csv'']"

subsection \<open>The handlers\<close>

text \<open>
  \<^verbatim>\<open>compute_z\<close> of \<^verbatim>\<open>src/api/zscore.py\<close> (the calls to the logger are left out).
  The assignment \<^verbatim>\<open>df["Month"] = ...\<close> happens before the measurement is checked, so
  the dictionary that comes back holds the assigned column on every later path.
\<close>

definition api_compute_z ::
    "(real \<Rightarrow> real \<Rightarrow> real option) \<Rightarrow> tables \<Rightarrow> ZScoreRequest \<Rightarrow>
     (error + result) \<times> tables" where
  "api_compute_z c_pow tabs request =
     (let sx = upper (sex request); ind = lower (indicator request)
      in case tabs (sx, ind) of
        None \<Rightarrow> (Inl (HTTPException 400 ''Unknown sex or indicator''), tabs)
      | Some df \<Rightarrow>
          if ind = ''length'' \<or> ind = ''weight'' then
            (case (years request, months request) of
               (Some y, Some m) \<Rightarrow>
                 (let total_months = y * 12 + m
                  in case map_of df ''Month'' of
                    None \<Rightarrow>
                      (Inl (HTTPException 500 ''Invalid table: missing Month column''), tabs)
                  | Some series \<Rightarrow>
                      (let month = to_numeric series;
                           df' = AList.update ''Month'' month df;
                           tabs' = tabs((sx, ind) \<mapsto> df');
                           row = df_loc df' (series_eq month (Fin (of_int total_months)));
                           meas = (if ind = ''length'' then length_cm request
                                   else weight request)
                       in case meas of
                         None \<Rightarrow>
                           (Inl (HTTPException 400
                              (if ind = ''length'' then ''Provide length (cm)''
                               else ''Provide weight (kg)'')), tabs')
                       | Some v \<Rightarrow> (score c_pow ind row v, tabs')))
             | _ \<Rightarrow> (Inl (HTTPException 400 ''Provide both years and months''), tabs))
          else
            (case (length_cm request, weight request) of
               (Some key_val, Some w) \<Rightarrow>
                 (case df of
                    [] \<Rightarrow> (Inl IndexError, tabs)
                  | (col0, series) # rest \<Rightarrow>
                      (let keys = to_numeric series;
                           df' = AList.update col0 keys df;
                           tabs' = tabs((sx, ind) \<mapsto> df');
                           row = df_loc df' (series_eq keys key_val)
                       in (score c_pow ind row w, tabs')))
             | _ \<Rightarrow>
                 (Inl (HTTPException 400 ''Provide both length (cm) and weight (kg)''),
                  tabs)))"

text \<open>\<^verbatim>\<open>compute_z\<close> of \<^verbatim>\<open>src/main.py\<close>.\<close>

definition main_compute_z ::
    "(real \<Rightarrow> real \<Rightarrow> real option) \<Rightarrow> tables \<Rightarrow> ZScoreRequest \<Rightarrow>
     (error + result) \<times> tables" where
  "main_compute_z c_pow tabs request =
     (let sx = upper (sex request); ind = lower (indicator request)
      in case tabs (sx, ind) of
        None \<Rightarrow> (Inl (HTTPException 400 ''Unknown sex or indicator''), tabs)
      | Some df \<Rightarrow>
          if ind = ''length'' \<or> ind = ''weight'' then
            (case (years request, months request) of
               (Some y, Some m) \<Rightarrow>
                 (let total_months = y * 12 + m
                  in case map_of df ''Month'' of
                    None \<Rightarrow> (Inl (HTTPException 500 ''Invalid table: missing Month''), tabs)
                  | Some series \<Rightarrow>
                      (let month = to_numeric series;
                           df' = AList.update ''Month'' month df;
                           tabs' = tabs((sx, ind) \<mapsto> df');
                           row = df_loc df' (series_eq month (Fin (of_int total_months)));
                           meas = (if ind = ''length'' then length_cm request
                                   else weight request)
                       in case meas of
                         None \<Rightarrow>
                           (Inl (HTTPException 400
                              (''Provide '' @
                               (if ind = ''length'' then ''length (cm)''
                                else ''weight (kg)''))), tabs')
                       | Some v \<Rightarrow> (score c_pow ind row v, tabs')))
             | _ \<Rightarrow> (Inl (HTTPException 400 ''Provide both years and months''), tabs))
          else
            (case (length_cm request, weight request) of
               (Some key_val, Some w) \<Rightarrow>
                 (case df of
                    [] \<Rightarrow> (Inl IndexError, tabs)
                  | (col0, series) # rest \<Rightarrow>
                      (let keys = to_numeric series;
                           df' = AList.update col0 keys df;
                           tabs' = tabs((sx, ind) \<mapsto> df');
                           row = df_loc df' (series_eq keys key_val)
                       in (score c_pow ind row w, tabs')))
             | _ \<Rightarrow>
                 (Inl (HTTPException 400 ''Provide both length (cm) and weight (kg)''),
                  tabs)))"

subsection \<open>What a request selects\<close>

text \<open>
  Names for the values the handlers compute on the way: the key column (\<^verbatim>\<open>"Month"\<close>
  for the two age-indexed indicators, \<^verbatim>\<open>df.columns[0]\<close> otherwise), the key that is
  looked up (\<^verbatim>\<open>total_months\<close> or \<^verbatim>\<open>key_val\<close>), the measurement \<^verbatim>\<open>meas\<close>,
  and the selection \<^verbatim>\<open>row\<close>.
\<close>

definition key_column :: "string \<Rightarrow> dataframe \<Rightarrow> (string \<times> cell list) option" where
  "key_column ind df =
     (if ind = ''length'' \<or> ind = ''weight'' then
        (case map_of df ''Month'' of None \<Rightarrow> None | Some series \<Rightarrow> Some (''Month'', series))
      else (case df of [] \<Rightarrow> None | (col0, series) # rest \<Rightarrow> Some (col0, series)))"

definition lookup_key :: "string \<Rightarrow> ZScoreRequest \<Rightarrow> pyfloat option" where
  "lookup_key ind request =
     (if ind = ''length'' \<or> ind = ''weight'' then
        (case (years request, months request) of
           (Some y, Some m) \<Rightarrow> Some (Fin (of_int (y * 12 + m)))
         | _ \<Rightarrow> None)
      else length_cm request)"

definition measurement :: "string \<Rightarrow> ZScoreRequest \<Rightarrow> pyfloat option" where
  "measurement ind request =
     (if ind = ''length'' then length_cm request else weight request)"

definition selected_rows :: "string \<Rightarrow> dataframe \<Rightarrow> pyfloat \<Rightarrow> dataframe option" where
  "selected_rows ind df k =
     (case key_column ind df of
        None \<Rightarrow> None
      | Some (name, series) \<Rightarrow>
          Some (df_loc (AList.update name (to_numeric series) df)
                  (series_eq (to_numeric series) k)))"


definition is_text :: "cell \<Rightarrow> bool" where
  "is_text c = (case c of CText t \<Rightarrow> True | _ \<Rightarrow> False)"

text \<open>
  The request gets as far as the lookup (and so as far as the assignment to the key column):
  the fields checked before it are present.
\<close>

definition reaches_lookup :: "string \<Rightarrow> ZScoreRequest \<Rightarrow> bool" where
  "reaches_lookup ind request =
     (if ind = ''length'' \<or> ind = ''weight'' then
        years request \<noteq> None \<and> months request \<noteq> None
      else length_cm request \<noteq> None \<and> weight request \<noteq> None)"

text \<open>
  The dictionary that a request leaves behind, read off the assignments
  \<^verbatim>\<open>df["Month"] = pd.to_numeric(df["Month"], errors="coerce")\<close> and
  \<^verbatim>\<open>df[col0] = pd.to_numeric(df[col0], errors="coerce")\<close>: the data frame is the
  object held in the dictionary, so the assignment replaces the key column of the selected
  table there; it is executed exactly when a table is selected, the table has its key
  column and the request reaches the lookup. The handlers are compared with it below.
\<close>

definition store_after :: "tables \<Rightarrow> ZScoreRequest \<Rightarrow> tables" where
  "store_after tabs request =
     (let sx = upper (sex request); ind = lower (indicator request)
      in case tabs (sx, ind) of
        None \<Rightarrow> tabs
      | Some df \<Rightarrow>
          (case key_column ind df of
             None \<Rightarrow> tabs
           | Some (name, series) \<Rightarrow>
               if reaches_lookup ind request
               then tabs((sx, ind) \<mapsto> AList.update name (to_numeric series) df)
               else tabs))"

text \<open>
  The matched row is the first row whose key equals the key looked up: its index, and the
  float read from one of its cells.
\<close>

fun first_true :: "bool list \<Rightarrow> nat option" where
  "first_true [] = None"
| "first_true (b # bs) = (if b then Some 0 else map_option Suc (first_true bs))"

definition row_value :: "dataframe \<Rightarrow> nat \<Rightarrow> string \<Rightarrow> pyfloat option" where
  "row_value df i name =
     (case map_of df name of
        None \<Rightarrow> None
      | Some cells \<Rightarrow>
          if i < length cells
          then (case py_float (cells ! i) of Inl e \<Rightarrow> None | Inr x \<Rightarrow> Some x)
          else None)"

text \<open>
  One possible C library: a \<^verbatim>\<open>pow\<close> that returns the exact power rounded to the
  nearest double. It serves to run the handlers on sample data.
\<close>

definition rounded_pow :: "real \<Rightarrow> real \<Rightarrow> real option" where
  "rounded_pow x y = (case binary64 (x powr y) of Fin p \<Rightarrow> Some p | _ \<Rightarrow> None)"

subsection \<open>Sample data\<close>

text \<open>
  Small tables in the layout of the WHO files, for evaluating the handlers: an age-indexed
  table with the columns \<^verbatim>\<open>Month, L, M, S\<close>, a weight-for-length table keyed by
  \<^verbatim>\<open>Length\<close>, a table whose key column was read as text, a table with a degenerate
  row (\<open>L = 0\<close>), one whose row has \<open>L = 0\<close> and an empty \<open>S\<close> cell, and one whose \<open>L\<close>
  and \<open>S\<close> are so small that their product underflows. All numbers are doubles.
\<close>

definition sample_age :: dataframe where
  "sample_age =
     [(''Month'', [CNum 0, CNum 1, CNum 24]),
      (''L'', [CNum 1, CNum 1, CNum 1]),
      (''M'', [CNum 50, CNum 64, CNum 87]),
      (''S'', [CNum (1 / 32), CNum (1 / 32), CNum (1 / 32)])]"

definition sample_wfl :: dataframe where
  "sample_wfl =
     [(''Length'', [CNum 65, CNum (131 / 2)]),
      (''L'', [CNum 1, CNum 1]),
      (''M'', [CNum 7, CNum (15 / 2)]),
      (''S'', [CNum (1 / 8), CNum (1 / 8)])]"

definition sample_csv :: "string \<Rightarrow> dataframe" where
  "sample_csv file =
     (if file = ''WHO-Boys-Weight-for-length-Percentiles_LMS.csv'' \<or>
         file = ''WHO-Girls-Weight-for-length-Percentiles_LMS.csv''
      then sample_wfl else sample_age)"

definition text_age :: dataframe where
  "text_age =
     [(''Month'', [CText (Some 0), CText None]),
      (''L'', [CNum 1, CNum 1]),
      (''M'', [CNum 50, CNum 64]),
      (''S'', [CNum (1 / 32), CNum (1 / 32)])]"

definition degenerate_age :: dataframe where
  "degenerate_age =
     [(''Month'', [CNum 0]), (''L'', [CNum 0]), (''M'', [CNum 50]), (''S'', [CNum (1 / 32)])]"

definition missing_s_age :: dataframe where
  "missing_s_age =
     [(''Month'', [CNum 0]), (''L'', [CNum 0]), (''M'', [CNum 50]), (''S'', [CNaN])]"


text \<open>
  A row as the WHO files have them, with \<open>S = 0.04\<close>: the cell holds the double
  nearest to 0.04.
\<close>

definition double_0_04 :: real where
  "double_0_04 = 5764607523034235 / 2 ^ 57"

definition decimal_age :: dataframe where
  "decimal_age =
     [(''Month'', [CNum 0]), (''L'', [CNum 1]), (''M'', [CNum 50]), (''S'', [CNum double_0_04])]"

definition decimal_csv :: "string \<Rightarrow> dataframe" where
  "decimal_csv file = decimal_age"

definition boy_length :: "int \<Rightarrow> real \<Rightarrow> ZScoreRequest" where
  "boy_length m len =
     \<lparr>sex = ''M'', indicator = ''length'', years = Some 0, months = Some m,
      length_cm = Some (Fin len), weight = None\<rparr>"

definition girl_length :: "int \<Rightarrow> real \<Rightarrow> ZScoreRequest" where
  "girl_length m len =
     \<lparr>sex = ''F'', indicator = ''length'', years = Some 0, months = Some m,
      length_cm = Some (Fin len), weight = None\<rparr>"


text \<open>A length-for-age request for a boy that supplies no age.\<close>

definition boy_no_age :: "real \<Rightarrow> ZScoreRequest" where
  "boy_no_age len =
     \<lparr>sex = ''M'', indicator = ''length'', years = None, months = None,
      length_cm = Some (Fin len), weight = None\<rparr>"

definition text_csv :: "string \<Rightarrow> dataframe" where
  "text_csv file = text_age"

definition degenerate_csv :: "string \<Rightarrow> dataframe" where
  "degenerate_csv file = degenerate_age"

definition missing_s_csv :: "string \<Rightarrow> dataframe" where
  "missing_s_csv file = missing_s_age"


text \<open>An error without the detail text of an \<^verbatim>\<open>HTTPException\<close>.\<close>

definition error_kind :: "error \<Rightarrow> error" where
  "error_kind e = (case e of HTTPException status detail \<Rightarrow> HTTPException status [] | _ \<Rightarrow> e)"

section \<open>Properties\<close>

subsection \<open>Unfolding bundles and basic facts\<close>

lemmas str_defs =
  upper_def lower_def upper_char_def lower_char_def ascii_lowercase_def ascii_uppercase_def

lemmas df_defs =
  to_numeric_def coerce_cell_def series_eq_def cell_eq_def select_def df_loc_def df_empty_def
  py_float_def first_value_def extract_lms_def

lemmas arith_defs =
  lms_z_def float_truediv_def float_pow_def finite_pow_def num_sub1_def float_sub1_def
  float_mul_def num_truediv_def

lemmas sel_defs = lookup_key_def measurement_def selected_rows_def key_column_def

subsection \<open>Rounding to binary64\<close>

lemma floor_log2_eq:
  assumes "x \<noteq> 0" and "power_int 2 e \<le> \<bar>x\<bar>" and "\<bar>x\<bar> < power_int 2 (e + 1)"
  shows "\<lfloor>log 2 \<bar>x\<bar>\<rfloor> = e"
proof -
  have a: "(2::real) powr of_int e = power_int 2 e"
    by (rule powr_real_of_int') simp_all
  have "(2::real) powr of_int (e + 1) = power_int 2 (e + 1)"
    by (rule powr_real_of_int') simp_all
  then have b: "(2::real) powr (of_int e + 1) = power_int 2 (e + 1)"
    by simp
  have "0 < \<bar>x\<bar>" using assms(1) by simp
  then show ?thesis
    using assms(2,3) a b floor_log_eq_powr_iff [of "\<bar>x\<bar>" 2 e] by simp
qed

text \<open>Evaluating \<open>binary64\<close> once the binade of \<open>x\<close> is known.\<close>

lemma binary64_eval:
  assumes "x \<noteq> 0" and "power_int 2 e \<le> \<bar>x\<bar>" and "\<bar>x\<bar> < power_int 2 (e + 1)"
  shows "binary64 x =
     (let q = power_int 2 (max e (- 1022) - 52);
          r = of_int (round_half_even (x / q)) * q
      in if 2 ^ 1024 \<le> \<bar>r\<bar> then (if 0 < x then PInf else NInf) else Fin r)"
  using assms(1) floor_log2_eq [OF assms] by (simp add: binary64_def Let_def)

lemma binary64_zero: "binary64 0 = Fin 0"
  by (simp add: binary64_def)

lemma binary64_one: "binary64 1 = Fin 1"
  using binary64_eval [of 1 0] by (simp add: round_half_even_def Let_def)

lemma binary64_32nd: "binary64 (1 / 32) = Fin (1 / 32)"
  using binary64_eval [of "1 / 32" "- 5"] by (simp add: round_half_even_def Let_def)

lemma binary64_not_nan: "binary64 x \<noteq> NaN"
  by (simp add: binary64_def Let_def)


lemma binary64_two: "binary64 2 = Fin 2"
  using binary64_eval [of 2 1] by (simp add: round_half_even_def Let_def)

lemmas class_defs =
  float_round1_def round_half_even_def classify_def float_lt_def float_le_def
  binary64_zero binary64_two

subsection \<open>The arithmetic of step 4\<close>

lemma float_truediv_zero: "float_truediv a (Fin 0) = Inl ZeroDivisionError"
  by (simp add: float_truediv_def)

lemma num_truediv_zero: "num_truediv x (Fin 0) = Inl ZeroDivisionError"
  by (cases x) (simp_all add: num_truediv_def float_truediv_def)

lemma float_truediv_error: "float_truediv a b = Inl e \<Longrightarrow> e = ZeroDivisionError"
  by (auto simp: float_truediv_def split: pyfloat.splits if_splits)

lemma num_truediv_error: "num_truediv x d = Inl e \<Longrightarrow> e = ZeroDivisionError"
  by (auto simp: num_truediv_def split: pynum.splits sum.splits if_splits
      dest: float_truediv_error)

lemma finite_pow_error:
  "finite_pow c_pow x y = Inl e \<Longrightarrow> e = ZeroDivisionError \<or> e = OverflowError"
  by (auto simp: finite_pow_def split: if_splits option.splits)

lemma float_pow_error:
  "float_pow c_pow v w = Inl e \<Longrightarrow> e = ZeroDivisionError \<or> e = OverflowError"
  by (auto simp: float_pow_def split: pyfloat.splits if_splits dest: finite_pow_error)

lemma lms_z_error:
  "lms_z c_pow meas L M S = Inl e \<Longrightarrow> e = ZeroDivisionError \<or> e = OverflowError"
  by (auto simp: lms_z_def split: sum.splits
      dest: float_truediv_error float_pow_error num_truediv_error)

lemma float_pow_zero_exponent: "float_pow c_pow v (Fin 0) = Inr (Flt (Fin 1))"
  by (simp add: float_pow_def)

lemma float_mul_zero: "L = 0 \<or> S = 0 \<Longrightarrow> float_mul (Fin L) (Fin S) = Fin 0"
  by (auto simp: float_mul_def binary64_zero)

lemma lms_z_degenerate:
  assumes "L = 0 \<or> S = 0"
  shows "\<exists>e. lms_z c_pow meas (Fin L) M (Fin S) = Inl e"
proof (cases "float_truediv meas M")
  case (Inl e)
  then show ?thesis by (simp add: lms_z_def)
next
  case (Inr q)
  show ?thesis
  proof (cases "float_pow c_pow q (Fin L)")
    case (Inl e)
    then show ?thesis using Inr by (simp add: lms_z_def)
  next
    case (Inr p)
    then show ?thesis
      using \<open>float_truediv meas M = Inr q\<close> float_mul_zero [OF assms]
      by (simp add: lms_z_def num_truediv_zero)
  qed
qed

lemma lms_z_zero_l: "lms_z c_pow meas (Fin 0) M (Fin S) = Inl ZeroDivisionError"
proof (cases "float_truediv meas M")
  case (Inl e)
  then show ?thesis using float_truediv_error [OF Inl] by (simp add: lms_z_def)
next
  case (Inr q)
  then show ?thesis
    by (simp add: lms_z_def float_pow_zero_exponent float_mul_zero num_truediv_zero)
qed

text \<open>Step 4 at the median: the quotient is 1, the power 1, the difference 0.\<close>

lemma lms_z_at_median:
  assumes "0 < M" and "L \<noteq> 0"
  shows "lms_z c_pow (Fin M) (Fin L) (Fin M) (Fin S) =
         (if float_mul (Fin L) (Fin S) = Fin 0 then Inl ZeroDivisionError
          else Inr (Flt (Fin 0)))"
proof -
  have q: "float_truediv (Fin M) (Fin M) = Inr (Fin 1)"
    using assms(1) by (simp add: float_truediv_def binary64_one)
  have p: "float_pow c_pow (Fin 1) (Fin L) = Inr (Flt (Fin 1))"
    using assms(2) by (simp add: float_pow_def finite_pow_def)
  have s: "num_sub1 (Flt (Fin 1)) = Flt (Fin 0)"
    by (simp add: num_sub1_def float_sub1_def binary64_zero)
  have m: "float_mul (Fin L) (Fin S) = binary64 (L * S)"
    by (simp add: float_mul_def)
  have d: "num_truediv (Flt (Fin 0)) (binary64 (L * S)) =
      (if binary64 (L * S) = Fin 0 then Inl ZeroDivisionError else Inr (Flt (Fin 0)))"
    by (cases "binary64 (L * S)")
      (simp_all add: num_truediv_def float_truediv_def binary64_zero binary64_not_nan)
  show ?thesis
    by (simp add: lms_z_def q p s m d)
qed

lemma score_at_median:
  assumes "\<not> df_empty row" and "extract_lms row = Inr (Fin L, Fin M, Fin S)"
    and "0 < M" and "L \<noteq> 0"
  shows "score c_pow ind row (Fin M) =
         (if float_mul (Fin L) (Fin S) = Fin 0 then Inl ZeroDivisionError
          else Inr \<lparr>z_score = Fin 0, classification = ''Normal''\<rparr>)"
  using assms(1,2) lms_z_at_median [OF assms(3,4), of c_pow S]
  by (simp add: score_def class_defs)

lemma score_success:
  assumes "score c_pow ind row v = Inr res"
  shows "\<exists>L M S z. \<not> df_empty row \<and> extract_lms row = Inr (L, M, S) \<and>
           lms_z c_pow v L M S = Inr (Flt z) \<and>
           z_score res = float_round1 z \<and> classification res = classify ind z"
  using assms
  by (auto simp: score_def split: if_splits sum.splits prod.splits pynum.splits)

subsection \<open>From the handlers to the scoring steps\<close>

lemma api_compute_z_score:
  assumes "tabs (upper (sex r), lower (indicator r)) = Some df"
    and "lookup_key (lower (indicator r)) r = Some k"
    and "measurement (lower (indicator r)) r = Some v"
    and "selected_rows (lower (indicator r)) df k = Some row"
  shows "fst (api_compute_z c_pow tabs r) = score c_pow (lower (indicator r)) row v"
  using assms
  by (auto simp: api_compute_z_def sel_defs Let_def
      split: option.splits if_splits list.splits prod.splits)

lemma main_compute_z_score:
  assumes "tabs (upper (sex r), lower (indicator r)) = Some df"
    and "lookup_key (lower (indicator r)) r = Some k"
    and "measurement (lower (indicator r)) r = Some v"
    and "selected_rows (lower (indicator r)) df k = Some row"
  shows "fst (main_compute_z c_pow tabs r) = score c_pow (lower (indicator r)) row v"
  using assms
  by (auto simp: main_compute_z_def sel_defs Let_def
      split: option.splits if_splits list.splits prod.splits)

lemma api_compute_z_success:
  assumes "fst (api_compute_z c_pow tabs r) = Inr res"
  shows "\<exists>df k v row. tabs (upper (sex r), lower (indicator r)) = Some df \<and>
           lookup_key (lower (indicator r)) r = Some k \<and>
           measurement (lower (indicator r)) r = Some v \<and>
           selected_rows (lower (indicator r)) df k = Some row \<and>
           score c_pow (lower (indicator r)) row v = Inr res"
  using assms
  by (auto simp: api_compute_z_def sel_defs Let_def
      split: option.splits if_splits list.splits prod.splits)

lemma main_compute_z_success:
  assumes "fst (main_compute_z c_pow tabs r) = Inr res"
  shows "\<exists>df k v row. tabs (upper (sex r), lower (indicator r)) = Some df \<and>
           lookup_key (lower (indicator r)) r = Some k \<and>
           measurement (lower (indicator r)) r = Some v \<and>
           selected_rows (lower (indicator r)) df k = Some row \<and>
           score c_pow (lower (indicator r)) row v = Inr res"
  using assms
  by (auto simp: main_compute_z_def sel_defs Let_def
      split: option.splits if_splits list.splits prod.splits)

subsection \<open>Evaluation on the sample data\<close>

lemma sample_boy_length_table:
  "api_tables sample_csv (upper (sex (boy_length m len)), lower (indicator (boy_length m len)))
     = Some sample_age"
  by (simp add: api_tables_def sample_csv_def boy_length_def str_defs)

lemma sample_boy_length_table_main:
  "main_tables sample_csv (upper (sex (boy_length m len)), lower (indicator (boy_length m len)))
     = Some sample_age"
  by (simp add: main_tables_def sample_csv_def boy_length_def str_defs)

lemma boy_length_key:
  "lookup_key (lower (indicator (boy_length m len))) (boy_length m len) = Some (Fin (of_int m))"
  by (simp add: lookup_key_def boy_length_def str_defs)

lemma boy_length_measurement:
  "measurement (lower (indicator (boy_length m len))) (boy_length m len) = Some (Fin len)"
  by (simp add: measurement_def boy_length_def str_defs)

lemma boy_length_indicator: "lower (indicator (boy_length m len)) = ''length''"
  by (simp add: boy_length_def str_defs)

subsection \<open>Classification thresholds\<close>

text \<open>
  Claim C2. For each of the three indicators the category is chosen by \<open>z < -3\<close>,
  then \<open>z < -2\<close>, then \<open>z \<le> 2\<close>: below \<open>-3\<close> the severe category, from
  \<open>-3\<close> (included) to \<open>-2\<close> (excluded) the moderate one, from \<open>-2\<close> to
  \<open>2\<close> (both included) "Normal", above \<open>2\<close> the top category. In particular
  \<open>z = -3\<close> is "Moderately stunted" for length-for-age and \<open>z = 2\<close> is "Normal".
\<close>

theorem classify_thresholds:
  "(z < - 3 \<longrightarrow>
      classify ''length'' (Fin z) = ''Severely stunted'' \<and>
      classify ''weight'' (Fin z) = ''Severe underweight'' \<and>
      classify ''wfl'' (Fin z) = ''Severe wasting'') \<and>
   (- 3 \<le> z \<and> z < - 2 \<longrightarrow>
      classify ''length'' (Fin z) = ''Moderately stunted'' \<and>
      classify ''weight'' (Fin z) = ''Underweight'' \<and>
      classify ''wfl'' (Fin z) = ''Wasting'') \<and>
   (- 2 \<le> z \<and> z \<le> 2 \<longrightarrow> classify ind (Fin z) = ''Normal'') \<and>
   (2 < z \<longrightarrow>
      classify ''length'' (Fin z) = ''Tall'' \<and>
      classify ''weight'' (Fin z) = ''Overweight'' \<and>
      classify ''wfl'' (Fin z) = ''Overweight'') \<and>
   classify ''length'' (Fin (- 3)) = ''Moderately stunted'' \<and>
   classify ''length'' (Fin (- 3)) \<noteq> ''Severely stunted'' \<and>
   classify ind (Fin 2) = ''Normal''"
  by (simp add: classify_def float_lt_def float_le_def)

theorem classify_thresholds_witness:
  "classify ''length'' (Fin (- 4)) = ''Severely stunted'' \<and>
   classify ''weight'' (Fin (- 3)) = ''Underweight'' \<and>
   classify ''wfl'' (Fin (- 2)) = ''Normal'' \<and>
   classify ''weight'' (Fin 2) = ''Normal'' \<and>
   classify ''length'' (Fin (20000001 / 10000000)) = ''Tall'' \<and>
   classify ''wfl'' (Fin (20000001 / 10000000)) = ''Overweight''"
  using classify_thresholds [of "- 4" "''length''"]
    classify_thresholds [of "- 3" "''weight''"]
    classify_thresholds [of "- 2" "''wfl''"]
    classify_thresholds [of 2 "''weight''"]
    classify_thresholds [of "20000001 / 10000000" "''wfl''"]
  by simp

subsection \<open>A run with a z-score just above 2\<close>

text \<open>
  A boy of one month and 68.0625 cm on the sample table (\<open>L = 1\<close>, \<open>M = 64\<close>,
  \<open>S = 1 / 32\<close>): every intermediate value is a double, so the steps are exact:
  \<open>68.0625 / 64 = 1089 / 1024\<close>, minus one \<open>65 / 1024\<close>, divided by \<open>1 / 32\<close> is
  \<open>z = 65 / 32 = 2.03125\<close>.
\<close>

lemma binary64_q: "binary64 (1089 / 1024) = Fin (1089 / 1024)"
  using binary64_eval [of "1089 / 1024" 0] by (simp add: round_half_even_def Let_def)

lemma binary64_d: "binary64 (65 / 1024) = Fin (65 / 1024)"
  using binary64_eval [of "65 / 1024" "- 4"] by (simp add: round_half_even_def Let_def)

lemma binary64_z: "binary64 (65 / 32) = Fin (65 / 32)"
  using binary64_eval [of "65 / 32" 1] by (simp add: round_half_even_def Let_def)

lemma rounded_pow_q: "rounded_pow (1089 / 1024) 1 = Some (1089 / 1024)"
  by (simp add: rounded_pow_def binary64_q)

lemma lms_z_sample:
  "lms_z rounded_pow (Fin (1089 / 16)) (Fin 1) (Fin 64) (Fin (1 / 32)) = Inr (Flt (Fin (65 / 32)))"
  by (simp add: arith_defs binary64_q rounded_pow_q binary64_d binary64_32nd binary64_z)

lemma sample_month1_rows:
  "selected_rows ''length'' sample_age (Fin (of_int 1)) =
     Some [(''Month'', [CNum 1]), (''L'', [CNum 1]), (''M'', [CNum 64]), (''S'', [CNum (1 / 32)])]"
  by (simp add: selected_rows_def key_column_def sample_age_def df_defs)

lemma sample_run_api:
  "fst (api_compute_z rounded_pow (api_tables sample_csv) (boy_length 1 (1089 / 16))) =
     Inr \<lparr>z_score = Fin 2, classification = ''Tall''\<rparr>"
  using api_compute_z_score [of "api_tables sample_csv" "boy_length 1 (1089 / 16)" sample_age
      "Fin (of_int 1)" "Fin (1089 / 16)" _ rounded_pow,
      OF sample_boy_length_table boy_length_key boy_length_measurement]
    sample_month1_rows lms_z_sample
  by (simp add: boy_length_indicator score_def df_defs class_defs)

lemma sample_run_main:
  "fst (main_compute_z rounded_pow (main_tables sample_csv) (boy_length 1 (1089 / 16))) =
     Inr \<lparr>z_score = Fin 2, classification = ''Tall''\<rparr>"
  using main_compute_z_score [of "main_tables sample_csv" "boy_length 1 (1089 / 16)" sample_age
      "Fin (of_int 1)" "Fin (1089 / 16)" _ rounded_pow,
      OF sample_boy_length_table_main boy_length_key boy_length_measurement]
    sample_month1_rows lms_z_sample
  by (simp add: boy_length_indicator score_def df_defs class_defs)

subsection \<open>Rounding comes after classification's input is fixed\<close>

text \<open>
  Claim C3. Whenever a handler returns a result, the classification is that of the
  unrounded \<open>z\<close> computed in step 4, and the reported \<open>z_score\<close> is that \<open>z\<close>
  rounded to one decimal. So \<open>z = 2.04\<close> is reported as \<open>2.0\<close> and classified
  "Tall" (length-for-age) or "Overweight" (the two weight indicators).
\<close>

theorem classification_from_unrounded_z:
  assumes "fst (api_compute_z c_pow tabs r) = Inr res \<or>
           fst (main_compute_z c_pow tabs r) = Inr res"
  shows "(\<exists>df k v row L M S z.
            tabs (upper (sex r), lower (indicator r)) = Some df \<and>
            lookup_key (lower (indicator r)) r = Some k \<and>
            measurement (lower (indicator r)) r = Some v \<and>
            selected_rows (lower (indicator r)) df k = Some row \<and>
            extract_lms row = Inr (L, M, S) \<and>
            lms_z c_pow v L M S = Inr (Flt z) \<and>
            z_score res = float_round1 z \<and>
            classification res = classify (lower (indicator r)) z) \<and>
         float_round1 (Fin (51 / 25)) = Fin 2 \<and>
         classify ''length'' (Fin (51 / 25)) = ''Tall'' \<and>
         classify ''weight'' (Fin (51 / 25)) = ''Overweight'' \<and>
         classify ''wfl'' (Fin (51 / 25)) = ''Overweight''"
proof -
  obtain df k v row where sel:
    "tabs (upper (sex r), lower (indicator r)) = Some df"
    "lookup_key (lower (indicator r)) r = Some k"
    "measurement (lower (indicator r)) r = Some v"
    "selected_rows (lower (indicator r)) df k = Some row"
    "score c_pow (lower (indicator r)) row v = Inr res"
    using assms api_compute_z_success [of c_pow tabs r res]
      main_compute_z_success [of c_pow tabs r res]
    by blast
  obtain L M S z where sc:
    "extract_lms row = Inr (L, M, S)" "lms_z c_pow v L M S = Inr (Flt z)"
    "z_score res = float_round1 z" "classification res = classify (lower (indicator r)) z"
    using score_success [OF sel(5)] by blast
  have ex: "float_round1 (Fin (51 / 25)) = Fin 2 \<and>
      classify ''length'' (Fin (51 / 25)) = ''Tall'' \<and>
      classify ''weight'' (Fin (51 / 25)) = ''Overweight'' \<and>
      classify ''wfl'' (Fin (51 / 25)) = ''Overweight''"
    by (simp add: class_defs)
  show ?thesis using sel(1-4) sc ex by blast
qed

theorem classification_from_unrounded_z_witness:
  "fst (api_compute_z rounded_pow (api_tables sample_csv) (boy_length 1 (1089 / 16))) =
     Inr \<lparr>z_score = Fin 2, classification = ''Tall''\<rparr> \<and>
   lms_z rounded_pow (Fin (1089 / 16)) (Fin 1) (Fin 64) (Fin (1 / 32)) =
     Inr (Flt (Fin (65 / 32))) \<and>
   float_round1 (Fin (65 / 32)) = Fin 2 \<and>
   classify ''length'' (Fin (65 / 32)) = ''Tall'' \<and>
   float_round1 (Fin (51 / 25)) = Fin 2 \<and>
   classify ''length'' (Fin (51 / 25)) = ''Tall''"
proof -
  have hyp:
    "fst (api_compute_z rounded_pow (api_tables sample_csv) (boy_length 1 (1089 / 16))) =
       Inr \<lparr>z_score = Fin 2, classification = ''Tall''\<rparr> \<or>
     fst (main_compute_z rounded_pow (api_tables sample_csv) (boy_length 1 (1089 / 16))) =
       Inr \<lparr>z_score = Fin 2, classification = ''Tall''\<rparr>"
    using sample_run_api by (rule disjI1)
  have r: "float_round1 (Fin (65 / 32)) = Fin 2 \<and> classify ''length'' (Fin (65 / 32)) = ''Tall''"
    by (simp add: class_defs)
  show ?thesis
    using classification_from_unrounded_z [of rounded_pow "api_tables sample_csv"
        "boy_length 1 (1089 / 16)" "\<lparr>z_score = Fin 2, classification = ''Tall''\<rparr>", OF hyp]
      sample_run_api lms_z_sample r
    by simp
qed

subsection \<open>The matched row\<close>

lemma first_true_Some:
  "first_true flags = Some i \<Longrightarrow> i < length flags \<and> flags ! i \<and> (\<forall>j<i. \<not> flags ! j)"
proof (induction flags arbitrary: i)
  case Nil
  then show ?case by simp
next
  case (Cons b bs)
  show ?case
  proof (cases b)
    case True
    then show ?thesis using Cons.prems by simp
  next
    case False
    then obtain i' where i': "first_true bs = Some i'" "i = Suc i'"
      using Cons.prems by auto
    have ih: "i' < length bs \<and> bs ! i' \<and> (\<forall>j<i'. \<not> bs ! j)"
      using Cons.IH [OF i'(1)] .
    show ?thesis
      using False i'(2) ih by (auto simp: nth_Cons split: nat.splits)
  qed
qed

lemma select_first:
  "select flags cells = c # rest \<Longrightarrow>
     \<exists>i. first_true flags = Some i \<and> i < length cells \<and> cells ! i = c"
proof (induction flags arbitrary: cells)
  case Nil
  then show ?case by (simp add: select_def)
next
  case (Cons b bs)
  show ?case
  proof (cases cells)
    case Nil
    then show ?thesis using Cons.prems by (simp add: select_def)
  next
    case (Cons x xs)
    show ?thesis
    proof (cases b)
      case True
      then show ?thesis using Cons.prems Cons by (simp add: select_def)
    next
      case False
      then have "select bs xs = c # rest"
        using Cons.prems Cons by (simp add: select_def)
      then obtain i where "first_true bs = Some i" "i < length xs" "xs ! i = c"
        using Cons.IH by blast
      then show ?thesis using False Cons by simp
    qed
  qed
qed

lemma map_of_df_loc: "map_of (df_loc df flags) name = map_option (select flags) (map_of df name)"
  by (induction df) (auto simp: df_loc_def)

lemma first_value_row:
  assumes "first_value (df_loc df flags) name = Inr x"
  shows "\<exists>i. first_true flags = Some i \<and> row_value df i name = Some x"
proof -
  obtain cells c rest where cells: "map_of df name = Some cells"
    and sel: "select flags cells = c # rest" and x: "py_float c = Inr x"
    using assms
    by (auto simp: first_value_def map_of_df_loc split: option.splits list.splits)
  obtain i where "first_true flags = Some i" "i < length cells" "cells ! i = c"
    using select_first [OF sel] by blast
  then show ?thesis using cells x by (auto simp: row_value_def)
qed

lemma extract_lms_row:
  assumes "extract_lms (df_loc df flags) = Inr (L, M, S)"
  shows "\<exists>i. first_true flags = Some i \<and> row_value df i ''L'' = Some L \<and>
           row_value df i ''M'' = Some M \<and> row_value df i ''S'' = Some S"
proof -
  have l: "first_value (df_loc df flags) ''L'' = Inr L"
    and m: "first_value (df_loc df flags) ''M'' = Inr M"
    and s: "first_value (df_loc df flags) ''S'' = Inr S"
    using assms by (auto simp: extract_lms_def split: sum.splits)
  show ?thesis
    using first_value_row [OF l] first_value_row [OF m] first_value_row [OF s] by auto
qed

lemma selected_rows_Some:
  assumes "selected_rows ind df k = Some row"
  shows "\<exists>name series. key_column ind df = Some (name, series) \<and>
           row = df_loc (AList.update name (to_numeric series) df)
                   (series_eq (to_numeric series) k)"
  using assms by (auto simp: selected_rows_def split: option.splits)

subsection \<open>The LMS formula\<close>

text \<open>
  Step 4 on finite operands when no special case of \<^verbatim>\<open>**\<close> applies: each of the four
  operations is rounded to a double, in the order of the expression.
\<close>

lemma lms_z_finite:
  assumes "M \<noteq> 0" and "binary64 (meas / M) = Fin q" and "0 < q" and "q \<noteq> 1" and "L \<noteq> 0"
    and "c_pow q L = Some p" and "binary64 (p - 1) = Fin d"
    and "binary64 (L * S) = Fin m" and "m \<noteq> 0"
  shows "lms_z c_pow (Fin meas) (Fin L) (Fin M) (Fin S) = Inr (Flt (binary64 (d / m)))"
  using assms by (simp add: arith_defs)

text \<open>A run on decimal data: 54 cm at \<open>M = 50\<close>, \<open>L = 1\<close>, \<open>S = 0.04\<close>.\<close>

lemma binary64_54_50: "binary64 (54 / 50) = Fin (607985949695017 / 2 ^ 49)"
  using binary64_eval [of "54 / 50" 0] by (simp add: round_half_even_def Let_def)

lemma binary64_q54: "binary64 (607985949695017 / 2 ^ 49) = Fin (607985949695017 / 2 ^ 49)"
  using binary64_eval [of "607985949695017 / 2 ^ 49" 0] by (simp add: round_half_even_def Let_def)

lemma binary64_d54: "binary64 (607985949695017 / 2 ^ 49 - 1) = Fin (45035996273705 / 2 ^ 49)"
  using binary64_eval [of "607985949695017 / 2 ^ 49 - 1" "- 4"]
  by (simp add: round_half_even_def Let_def)

lemma binary64_s004: "binary64 (1 * double_0_04) = Fin double_0_04"
  using binary64_eval [of "1 * double_0_04" "- 5"]
  by (simp add: round_half_even_def Let_def double_0_04_def)

lemma binary64_z54:
  "binary64 (45035996273705 / 2 ^ 49 / double_0_04) = Fin (1125899906842625 / 2 ^ 49)"
  using binary64_eval [of "45035996273705 / 2 ^ 49 / double_0_04" 1]
  by (simp add: round_half_even_def Let_def double_0_04_def)

lemma rounded_pow_q54:
  "rounded_pow (607985949695017 / 2 ^ 49) 1 = Some (607985949695017 / 2 ^ 49)"
  using binary64_q54 by (simp add: rounded_pow_def)

lemma lms_z_decimal:
  "lms_z rounded_pow (Fin 54) (Fin 1) (Fin 50) (Fin double_0_04) =
     Inr (Flt (Fin (1125899906842625 / 2 ^ 49)))"
proof -
  have "lms_z rounded_pow (Fin 54) (Fin 1) (Fin 50) (Fin double_0_04) =
      Inr (Flt (binary64 (45035996273705 / 2 ^ 49 / double_0_04)))"
  proof (rule lms_z_finite)
    show "binary64 (54 / 50) = Fin (607985949695017 / 2 ^ 49)" by (rule binary64_54_50)
    show "rounded_pow (607985949695017 / 2 ^ 49) 1 = Some (607985949695017 / 2 ^ 49)"
      by (rule rounded_pow_q54)
    show "binary64 (607985949695017 / 2 ^ 49 - 1) = Fin (45035996273705 / 2 ^ 49)"
      by (rule binary64_d54)
    show "binary64 (1 * double_0_04) = Fin double_0_04" by (rule binary64_s004)
    show "double_0_04 \<noteq> 0" by (simp add: double_0_04_def)
  qed simp_all
  then show ?thesis using binary64_z54 by simp
qed

lemma decimal_rows:
  "selected_rows ''length'' decimal_age (Fin (of_int 0)) = Some decimal_age"
  by (simp add: selected_rows_def key_column_def decimal_age_def df_defs)

lemma decimal_score:
  "score rounded_pow ''length'' decimal_age (Fin 54) =
     Inr \<lparr>z_score = Fin 2, classification = ''Tall''\<rparr>"
proof -
  have e: "\<not> df_empty decimal_age"
    and l: "extract_lms decimal_age = Inr (Fin 1, Fin 50, Fin double_0_04)"
    by (simp_all add: decimal_age_def df_defs)
  show ?thesis
    using e l lms_z_decimal by (simp add: score_def class_defs)
qed

text \<open>
  Claim C1, as stated, fails: the handlers evaluate the formula in binary64 arithmetic, and
  the value they round and classify is not the value of the formula. For a boy of 0 months
  and 54 cm on a row with \<open>L = 1\<close>, \<open>M = 50\<close>, \<open>S = 0.04\<close> (the double), the computed
  \<open>z\<close> is \<open>2 + 2 ^ - 49\<close> and the answer is "Tall", while the formula's value on these
  very numbers is below 2, which would be "Normal".
\<close>

theorem computed_z_differs_from_exact_formula:
  "fst (api_compute_z rounded_pow (api_tables decimal_csv) (boy_length 0 54)) =
     Inr \<lparr>z_score = Fin 2, classification = ''Tall''\<rparr> \<and>
   fst (main_compute_z rounded_pow (main_tables decimal_csv) (boy_length 0 54)) =
     Inr \<lparr>z_score = Fin 2, classification = ''Tall''\<rparr> \<and>
   lms_z rounded_pow (Fin 54) (Fin 1) (Fin 50) (Fin double_0_04) =
     Inr (Flt (Fin (1125899906842625 / 2 ^ 49))) \<and>
   (1125899906842625 / 2 ^ 49 :: real) \<noteq> ((54 / 50) powr 1 - 1) / (1 * double_0_04) \<and>
   classify ''length'' (Fin (((54 / 50) powr 1 - 1) / (1 * double_0_04))) = ''Normal''"
proof -
  have ta: "api_tables decimal_csv
      (upper (sex (boy_length 0 54)), lower (indicator (boy_length 0 54))) = Some decimal_age"
    by (simp add: api_tables_def decimal_csv_def boy_length_def str_defs)
  have tm: "main_tables decimal_csv
      (upper (sex (boy_length 0 54)), lower (indicator (boy_length 0 54))) = Some decimal_age"
    by (simp add: main_tables_def decimal_csv_def boy_length_def str_defs)
  have sel: "selected_rows (lower (indicator (boy_length 0 54))) decimal_age (Fin (of_int 0))
      = Some decimal_age"
    using decimal_rows by (simp add: boy_length_indicator)
  have a: "fst (api_compute_z rounded_pow (api_tables decimal_csv) (boy_length 0 54)) =
      Inr \<lparr>z_score = Fin 2, classification = ''Tall''\<rparr>"
    using api_compute_z_score [of "api_tables decimal_csv" "boy_length 0 54" decimal_age
        "Fin (of_int 0)" "Fin 54" decimal_age rounded_pow,
        OF ta boy_length_key boy_length_measurement sel] decimal_score
    by (simp add: boy_length_indicator)
  have m: "fst (main_compute_z rounded_pow (main_tables decimal_csv) (boy_length 0 54)) =
      Inr \<lparr>z_score = Fin 2, classification = ''Tall''\<rparr>"
    using main_compute_z_score [of "main_tables decimal_csv" "boy_length 0 54" decimal_age
        "Fin (of_int 0)" "Fin 54" decimal_age rounded_pow,
        OF tm boy_length_key boy_length_measurement sel] decimal_score
    by (simp add: boy_length_indicator)
  have ne: "(1125899906842625 / 2 ^ 49 :: real) \<noteq> ((54 / 50) powr 1 - 1) / (1 * double_0_04)"
    by (simp add: double_0_04_def)
  have cl: "classify ''length'' (Fin (((54 / 50) powr 1 - 1) / (1 * double_0_04))) = ''Normal''"
    by (simp add: double_0_04_def classify_def float_lt_def float_le_def)
  show ?thesis using a m lms_z_decimal ne cl by simp
qed

text \<open>
  Claim C1, amended. Whenever a handler returns a result, the \<open>z\<close> that it rounds and
  classifies is the value of \<^verbatim>\<open>((meas / M) ** L - 1) / (L * S)\<close> as Python's float
  operators compute it, where \<open>meas\<close> is the measurement of the request and \<open>L\<close>,
  \<open>M\<close>, \<open>S\<close> are read from the first row of the selected table whose key equals the
  key looked up. On finite operands outside the special cases of \<^verbatim>\<open>**\<close> this value
  is the formula with each of its four operations rounded to a double.
\<close>

theorem z_is_float_formula_on_matched_row:
  "(fst (api_compute_z c_pow tabs r) = Inr res \<or> fst (main_compute_z c_pow tabs r) = Inr res
      \<longrightarrow>
      (\<exists>df name series k v i L M S z.
         tabs (upper (sex r), lower (indicator r)) = Some df \<and>
         key_column (lower (indicator r)) df = Some (name, series) \<and>
         lookup_key (lower (indicator r)) r = Some k \<and>
         measurement (lower (indicator r)) r = Some v \<and>
         first_true (series_eq (to_numeric series) k) = Some i \<and>
         row_value (AList.update name (to_numeric series) df) i ''L'' = Some L \<and>
         row_value (AList.update name (to_numeric series) df) i ''M'' = Some M \<and>
         row_value (AList.update name (to_numeric series) df) i ''S'' = Some S \<and>
         lms_z c_pow v L M S = Inr (Flt z) \<and>
         z_score res = float_round1 z \<and>
         classification res = classify (lower (indicator r)) z)) \<and>
   (mM \<noteq> 0 \<and> binary64 (meas / mM) = Fin q \<and> 0 < q \<and> q \<noteq> 1 \<and> eL \<noteq> 0 \<and>
    c_pow q eL = Some p \<and> binary64 (p - 1) = Fin d \<and> binary64 (eL * eS) = Fin m \<and> m \<noteq> 0
      \<longrightarrow>
      lms_z c_pow (Fin meas) (Fin eL) (Fin mM) (Fin eS) = Inr (Flt (binary64 (d / m))))"
proof (intro conjI impI)
  assume ok: "fst (api_compute_z c_pow tabs r) = Inr res \<or>
              fst (main_compute_z c_pow tabs r) = Inr res"
  obtain df k v row where sel:
    "tabs (upper (sex r), lower (indicator r)) = Some df"
    "lookup_key (lower (indicator r)) r = Some k"
    "measurement (lower (indicator r)) r = Some v"
    "selected_rows (lower (indicator r)) df k = Some row"
    "score c_pow (lower (indicator r)) row v = Inr res"
    using ok api_compute_z_success [of c_pow tabs r res]
      main_compute_z_success [of c_pow tabs r res]
    by blast
  obtain L M S z where sc:
    "extract_lms row = Inr (L, M, S)" "lms_z c_pow v L M S = Inr (Flt z)"
    "z_score res = float_round1 z" "classification res = classify (lower (indicator r)) z"
    using score_success [OF sel(5)] by blast
  obtain name series where key: "key_column (lower (indicator r)) df = Some (name, series)"
    and row: "row = df_loc (AList.update name (to_numeric series) df)
                      (series_eq (to_numeric series) k)"
    using selected_rows_Some [OF sel(4)] by blast
  obtain i where i: "first_true (series_eq (to_numeric series) k) = Some i"
    "row_value (AList.update name (to_numeric series) df) i ''L'' = Some L"
    "row_value (AList.update name (to_numeric series) df) i ''M'' = Some M"
    "row_value (AList.update name (to_numeric series) df) i ''S'' = Some S"
    using extract_lms_row [of "AList.update name (to_numeric series) df"
        "series_eq (to_numeric series) k" L M S] sc(1) row
    by blast
  show "\<exists>df name series k v i L M S z.
         tabs (upper (sex r), lower (indicator r)) = Some df \<and>
         key_column (lower (indicator r)) df = Some (name, series) \<and>
         lookup_key (lower (indicator r)) r = Some k \<and>
         measurement (lower (indicator r)) r = Some v \<and>
         first_true (series_eq (to_numeric series) k) = Some i \<and>
         row_value (AList.update name (to_numeric series) df) i ''L'' = Some L \<and>
         row_value (AList.update name (to_numeric series) df) i ''M'' = Some M \<and>
         row_value (AList.update name (to_numeric series) df) i ''S'' = Some S \<and>
         lms_z c_pow v L M S = Inr (Flt z) \<and>
         z_score res = float_round1 z \<and>
         classification res = classify (lower (indicator r)) z"
    using sel(1-3) key i sc(2-4) by blast
next
  assume "mM \<noteq> 0 \<and> binary64 (meas / mM) = Fin q \<and> 0 < q \<and> q \<noteq> 1 \<and> eL \<noteq> 0 \<and>
    c_pow q eL = Some p \<and> binary64 (p - 1) = Fin d \<and> binary64 (eL * eS) = Fin m \<and> m \<noteq> 0"
  then show "lms_z c_pow (Fin meas) (Fin eL) (Fin mM) (Fin eS) = Inr (Flt (binary64 (d / m)))"
    using lms_z_finite [of mM meas q eL c_pow p d eS m] by blast
qed

theorem z_is_float_formula_on_matched_row_witness:
  "fst (api_compute_z rounded_pow (api_tables sample_csv) (boy_length 1 (1089 / 16))) =
     Inr \<lparr>z_score = Fin 2, classification = ''Tall''\<rparr> \<and>
   first_true (series_eq (to_numeric [CNum 0, CNum 1, CNum 24]) (Fin 1)) = Some 1 \<and>
   row_value sample_age 1 ''L'' = Some (Fin 1) \<and>
   row_value sample_age 1 ''M'' = Some (Fin 64) \<and>
   row_value sample_age 1 ''S'' = Some (Fin (1 / 32)) \<and>
   lms_z rounded_pow (Fin (1089 / 16)) (Fin 1) (Fin 64) (Fin (1 / 32)) =
     Inr (Flt (binary64 (65 / 1024 / (1 / 32)))) \<and>
   binary64 (65 / 1024 / (1 / 32)) = Fin (65 / 32)"
proof -
  have hyp:
    "fst (api_compute_z rounded_pow (api_tables sample_csv) (boy_length 1 (1089 / 16))) =
       Inr \<lparr>z_score = Fin 2, classification = ''Tall''\<rparr> \<or>
     fst (main_compute_z rounded_pow (api_tables sample_csv) (boy_length 1 (1089 / 16))) =
       Inr \<lparr>z_score = Fin 2, classification = ''Tall''\<rparr>"
    using sample_run_api by (rule disjI1)
  have fin: "(64 :: real) \<noteq> 0 \<and> binary64 (1089 / 16 / 64) = Fin (1089 / 1024) \<and>
      (0 :: real) < 1089 / 1024 \<and> (1089 / 1024 :: real) \<noteq> 1 \<and> (1 :: real) \<noteq> 0 \<and>
      rounded_pow (1089 / 1024) 1 = Some (1089 / 1024) \<and>
      binary64 (1089 / 1024 - 1) = Fin (65 / 1024) \<and>
      binary64 (1 * (1 / 32)) = Fin (1 / 32) \<and> (1 / 32 :: real) \<noteq> 0"
    using binary64_q binary64_d binary64_32nd rounded_pow_q by simp
  have rows: "first_true (series_eq (to_numeric [CNum 0, CNum 1, CNum 24]) (Fin 1)) = Some 1 \<and>
      row_value sample_age 1 ''L'' = Some (Fin 1) \<and>
      row_value sample_age 1 ''M'' = Some (Fin 64) \<and>
      row_value sample_age 1 ''S'' = Some (Fin (1 / 32))"
    by (simp add: row_value_def sample_age_def df_defs)
  have z: "binary64 (65 / 1024 / (1 / 32)) = Fin (65 / 32)"
    using binary64_z by simp
  have fml: "lms_z rounded_pow (Fin (1089 / 16)) (Fin 1) (Fin 64) (Fin (1 / 32)) =
      Inr (Flt (binary64 (65 / 1024 / (1 / 32))))"
    using z_is_float_formula_on_matched_row [of rounded_pow "api_tables sample_csv"
        "boy_length 1 (1089 / 16)" "\<lparr>z_score = Fin 2, classification = ''Tall''\<rparr>"
        64 "1089 / 16" "1089 / 1024" 1 "1089 / 1024" "65 / 1024" "1 / 32" "1 / 32"] hyp fin
    by blast
  show ?thesis using sample_run_api rows fml z by simp
qed

subsection \<open>Exact-match lookup\<close>












subsection \<open>The median scores zero\<close>






subsection \<open>Degenerate rows\<close>

lemma degenerate_score:
  assumes "\<not> df_empty row" and "extract_lms row = Inr (Fin L, M, Fin S)"
    and "L = 0 \<or> S = 0"
  shows "(score c_pow ind row v = Inl ZeroDivisionError \<or>
          score c_pow ind row v = Inl OverflowError) \<and>
         (L = 0 \<longrightarrow> score c_pow ind row v = Inl ZeroDivisionError)"
proof -
  obtain e where e: "lms_z c_pow v (Fin L) M (Fin S) = Inl e"
    using lms_z_degenerate [OF assms(3)] by blast
  have "e = ZeroDivisionError \<or> e = OverflowError"
    using lms_z_error [OF e] .
  then show ?thesis
    using assms(1,2) e lms_z_zero_l [of c_pow v M S] by (auto simp: score_def)
qed

lemma missing_s_rows:
  "selected_rows ''length'' missing_s_age (Fin (of_int 0)) = Some missing_s_age"
  by (simp add: selected_rows_def key_column_def missing_s_age_def df_defs)

lemma missing_s_score:
  "score c_pow ''length'' missing_s_age (Fin 50) =
     Inr \<lparr>z_score = NaN, classification = ''Tall''\<rparr>"
proof -
  have e: "\<not> df_empty missing_s_age"
    and l: "extract_lms missing_s_age = Inr (Fin 0, Fin 50, NaN)"
    by (simp_all add: missing_s_age_def df_defs)
  have z: "lms_z c_pow (Fin 50) (Fin 0) (Fin 50) NaN = Inr (Flt NaN)"
    by (simp add: arith_defs binary64_one binary64_zero)
  show ?thesis using e l z by (simp add: score_def class_defs)
qed

text \<open>
  Claim C6, as stated, fails: the handlers check no precondition on \<open>M\<close>, \<open>L\<close>,
  \<open>S\<close>, and a matched row with \<open>L = 0\<close> whose \<open>S\<close> cell is empty (NaN) yields a
  returned result: \<open>0.0 * nan\<close> is NaN, not zero, so the division does not raise, and the
  answer is the z-score NaN with the classification "Tall".
\<close>

theorem degenerate_row_with_empty_cell_returns_result:
  "extract_lms missing_s_age = Inr (Fin 0, Fin 50, NaN) \<and>
   fst (api_compute_z rounded_pow (api_tables missing_s_csv) (boy_length 0 50)) =
     Inr \<lparr>z_score = NaN, classification = ''Tall''\<rparr> \<and>
   fst (main_compute_z rounded_pow (main_tables missing_s_csv) (boy_length 0 50)) =
     Inr \<lparr>z_score = NaN, classification = ''Tall''\<rparr>"
proof -
  have ta: "api_tables missing_s_csv
      (upper (sex (boy_length 0 50)), lower (indicator (boy_length 0 50))) = Some missing_s_age"
    by (simp add: api_tables_def missing_s_csv_def boy_length_def str_defs)
  have tm: "main_tables missing_s_csv
      (upper (sex (boy_length 0 50)), lower (indicator (boy_length 0 50))) = Some missing_s_age"
    by (simp add: main_tables_def missing_s_csv_def boy_length_def str_defs)
  have sel: "selected_rows (lower (indicator (boy_length 0 50))) missing_s_age (Fin (of_int 0))
      = Some missing_s_age"
    using missing_s_rows by (simp add: boy_length_indicator)
  have l: "extract_lms missing_s_age = Inr (Fin 0, Fin 50, NaN)"
    by (simp add: missing_s_age_def df_defs)
  have a: "fst (api_compute_z rounded_pow (api_tables missing_s_csv) (boy_length 0 50)) =
      Inr \<lparr>z_score = NaN, classification = ''Tall''\<rparr>"
    using api_compute_z_score [of "api_tables missing_s_csv" "boy_length 0 50" missing_s_age
        "Fin (of_int 0)" "Fin 50" missing_s_age rounded_pow,
        OF ta boy_length_key boy_length_measurement sel] missing_s_score [of rounded_pow]
    by (simp add: boy_length_indicator)
  have m: "fst (main_compute_z rounded_pow (main_tables missing_s_csv) (boy_length 0 50)) =
      Inr \<lparr>z_score = NaN, classification = ''Tall''\<rparr>"
    using main_compute_z_score [of "main_tables missing_s_csv" "boy_length 0 50" missing_s_age
        "Fin (of_int 0)" "Fin 50" missing_s_age rounded_pow,
        OF tm boy_length_key boy_length_measurement sel] missing_s_score [of rounded_pow]
    by (simp add: boy_length_indicator)
  show ?thesis using a m l by simp
qed

text \<open>
  Claim C6, amended. There is no check of \<open>M > 0\<close>, \<open>L \<noteq> 0\<close>, \<open>S \<noteq> 0\<close>. If
  the row that a request selects holds numbers \<open>L\<close> and \<open>S\<close> with \<open>L = 0\<close> or
  \<open>S = 0\<close>, then no result is returned: evaluating
  \<^verbatim>\<open>((meas / M) ** L - 1) / (L * S)\<close> raises an uncaught exception in both handlers,
  \<^verbatim>\<open>ZeroDivisionError\<close> (from the division itself or from a zero base) or, if the
  power overflows first, \<^verbatim>\<open>OverflowError\<close>; with \<open>L = 0\<close> it is always
  \<^verbatim>\<open>ZeroDivisionError\<close>.
\<close>

theorem degenerate_row_raises:
  assumes "tabs (upper (sex r), lower (indicator r)) = Some df"
    and "lookup_key (lower (indicator r)) r = Some k"
    and "measurement (lower (indicator r)) r = Some v"
    and "selected_rows (lower (indicator r)) df k = Some row"
    and "\<not> df_empty row"
    and "extract_lms row = Inr (Fin L, M, Fin S)"
    and "L = 0 \<or> S = 0"
  shows "(fst (api_compute_z c_pow tabs r) = Inl ZeroDivisionError \<or>
          fst (api_compute_z c_pow tabs r) = Inl OverflowError) \<and>
         (fst (main_compute_z c_pow tabs r) = Inl ZeroDivisionError \<or>
          fst (main_compute_z c_pow tabs r) = Inl OverflowError) \<and>
         (L = 0 \<longrightarrow>
            fst (api_compute_z c_pow tabs r) = Inl ZeroDivisionError \<and>
            fst (main_compute_z c_pow tabs r) = Inl ZeroDivisionError)"
  using assms(1-4) api_compute_z_score [of tabs r df k v row c_pow]
    main_compute_z_score [of tabs r df k v row c_pow]
    degenerate_score [OF assms(5-7), of c_pow "lower (indicator r)" v]
  by simp

theorem degenerate_row_raises_witness:
  "extract_lms degenerate_age = Inr (Fin 0, Fin 50, Fin (1 / 32)) \<and>
   fst (api_compute_z rounded_pow (api_tables degenerate_csv) (boy_length 0 50)) =
     Inl ZeroDivisionError \<and>
   fst (main_compute_z rounded_pow (main_tables degenerate_csv) (boy_length 0 50)) =
     Inl ZeroDivisionError"
proof -
  have tab: "api_tables degenerate_csv
      (upper (sex (boy_length 0 50)), lower (indicator (boy_length 0 50))) = Some degenerate_age"
    by (simp add: api_tables_def degenerate_csv_def boy_length_def str_defs)
  have tab': "main_tables degenerate_csv
      (upper (sex (boy_length 0 50)), lower (indicator (boy_length 0 50))) = Some degenerate_age"
    by (simp add: main_tables_def degenerate_csv_def boy_length_def str_defs)
  have sel: "selected_rows (lower (indicator (boy_length 0 50))) degenerate_age (Fin (of_int 0))
               = Some degenerate_age"
    by (simp add: boy_length_indicator selected_rows_def key_column_def degenerate_age_def
        df_defs)
  have ne: "\<not> df_empty degenerate_age"
    by (simp add: df_empty_def degenerate_age_def)
  have lms: "extract_lms degenerate_age = Inr (Fin 0, Fin 50, Fin (1 / 32))"
    by (simp add: degenerate_age_def df_defs)
  have zero: "(0 :: real) = 0 \<or> (1 / 32 :: real) = 0"
    by simp
  show ?thesis
    using degenerate_row_raises [of "api_tables degenerate_csv" "boy_length 0 50" degenerate_age
        "Fin (of_int 0)" "Fin 50" degenerate_age 0 "Fin 50" "1 / 32" rounded_pow,
        OF tab boy_length_key boy_length_measurement sel ne lms zero]
      degenerate_row_raises [of "main_tables degenerate_csv" "boy_length 0 50" degenerate_age
        "Fin (of_int 0)" "Fin 50" degenerate_age 0 "Fin 50" "1 / 32" rounded_pow,
        OF tab' boy_length_key boy_length_measurement sel ne lms zero] lms
    by simp
qed

subsection \<open>The table dictionary across a request\<close>

lemma to_numeric_id: "\<not> list_ex is_text series \<Longrightarrow> to_numeric series = series"
  by (induction series) (auto simp: to_numeric_def coerce_cell_def is_text_def split: cell.splits)

lemma to_numeric_changes: "list_ex is_text series \<Longrightarrow> to_numeric series \<noteq> series"
  by (induction series)
    (auto simp: to_numeric_def coerce_cell_def is_text_def split: cell.splits option.splits)

lemma key_column_map_of:
  "key_column ind df = Some (name, series) \<Longrightarrow> map_of df name = Some series"
  by (auto simp: key_column_def split: if_splits option.splits list.splits)

lemma api_store_after: "snd (api_compute_z c_pow tabs r) = store_after tabs r"
  by (auto simp: api_compute_z_def store_after_def key_column_def reaches_lookup_def Let_def
      split: option.splits if_splits list.splits prod.splits)

lemma main_store_after: "snd (main_compute_z c_pow tabs r) = store_after tabs r"
  by (auto simp: main_compute_z_def store_after_def key_column_def reaches_lookup_def Let_def
      split: option.splits if_splits list.splits prod.splits)

lemma store_after_elsewhere:
  "key \<noteq> (upper (sex r), lower (indicator r)) \<Longrightarrow> store_after tabs r key = tabs key"
  by (auto simp: store_after_def Let_def split: option.splits)

lemma store_same:
  assumes "tabs key = Some df" and "key_column ind df = Some (name, series)"
    and "\<not> list_ex is_text series"
  shows "tabs(key \<mapsto> AList.update name (to_numeric series) df) = tabs"
proof -
  have "AList.update name (to_numeric series) df = df"
    using assms(2,3) by (simp add: to_numeric_id key_column_map_of update_triv)
  then show ?thesis using assms(1) by (simp add: map_upd_triv)
qed

lemma store_differs:
  assumes "tabs key = Some df" and "key_column ind df = Some (name, series)"
    and "list_ex is_text series"
  shows "tabs(key \<mapsto> AList.update name (to_numeric series) df) \<noteq> tabs"
proof
  assume eq: "tabs(key \<mapsto> AList.update name (to_numeric series) df) = tabs"
  have "(tabs(key \<mapsto> AList.update name (to_numeric series) df)) key =
      Some (AList.update name (to_numeric series) df)"
    by simp
  then have "AList.update name (to_numeric series) df = df"
    using eq assms(1) by simp
  then have "map_of (AList.update name (to_numeric series) df) name = map_of df name"
    by simp
  then have "to_numeric series = series"
    using key_column_map_of [OF assms(2)] by (simp add: update_conv)
  then show False
    using to_numeric_changes [OF assms(3)] by simp
qed

lemma store_after_unchanged:
  assumes "\<forall>df name series.
      tabs (upper (sex r), lower (indicator r)) = Some df \<longrightarrow>
      key_column (lower (indicator r)) df = Some (name, series) \<longrightarrow>
      reaches_lookup (lower (indicator r)) r \<longrightarrow>
      \<not> list_ex is_text series"
  shows "store_after tabs r = tabs"
  using assms
  by (auto simp: store_after_def Let_def store_same split: option.splits)

lemma store_after_changed:
  assumes "tabs (upper (sex r), lower (indicator r)) = Some df"
    and "key_column (lower (indicator r)) df = Some (name, series)"
    and "reaches_lookup (lower (indicator r)) r"
    and "list_ex is_text series"
  shows "store_after tabs r \<noteq> tabs"
  using assms
    store_differs [of tabs "(upper (sex r), lower (indicator r))" df "lower (indicator r)"
      name series]
  by (simp add: store_after_def Let_def)

text \<open>
  Claim C7, as stated, fails: a request assigns the coerced key column back into the data
  frame held in the dictionary (\<^verbatim>\<open>df["Month"] = pd.to_numeric(...)\<close>), so a key
  column that was read as text is replaced by numbers and NaN. Here the dictionary after one
  request differs from the dictionary before it, for either handler.
\<close>

theorem request_changes_text_key_column:
  "snd (api_compute_z rounded_pow (api_tables text_csv) (boy_length 0 50))
     \<noteq> api_tables text_csv \<and>
   snd (main_compute_z rounded_pow (main_tables text_csv) (boy_length 0 50))
     \<noteq> main_tables text_csv"
proof -
  have a: "snd (api_compute_z rounded_pow (api_tables text_csv) (boy_length 0 50))
             (''M'', ''length'')
           \<noteq> api_tables text_csv (''M'', ''length'')"
    by (simp add: api_compute_z_def api_tables_def text_csv_def text_age_def boy_length_def
        str_defs df_defs Let_def)
  have m: "snd (main_compute_z rounded_pow (main_tables text_csv) (boy_length 0 50))
             (''M'', ''length'')
           \<noteq> main_tables text_csv (''M'', ''length'')"
    by (simp add: main_compute_z_def main_tables_def text_csv_def text_age_def boy_length_def
        str_defs df_defs Let_def)
  show ?thesis using a m by metis
qed

text \<open>
  Claim C7, amended. The dictionary that either handler leaves behind is
  \<open>store_after\<close>: the only entry a request can change is the one of the table it
  selects, and the only change is that the key column of that table is replaced by its
  coercion to numbers. That assignment is executed only by a request that reaches the
  lookup; a request that is rejected before it (no table, no age or no length and weight, no
  key column) changes nothing. So the dictionary is identical before and after the call
  unless the request reaches the lookup in a table whose key column holds a text cell, and
  then it is not.
\<close>

theorem request_effect_on_store:
  "snd (api_compute_z c_pow tabs r) = store_after tabs r \<and>
   snd (main_compute_z c_pow tabs r) = store_after tabs r \<and>
   (\<forall>key. key \<noteq> (upper (sex r), lower (indicator r)) \<longrightarrow>
      store_after tabs r key = tabs key) \<and>
   ((\<forall>df name series.
       tabs (upper (sex r), lower (indicator r)) = Some df \<longrightarrow>
       key_column (lower (indicator r)) df = Some (name, series) \<longrightarrow>
       reaches_lookup (lower (indicator r)) r \<longrightarrow>
       \<not> list_ex is_text series) \<longrightarrow>
    store_after tabs r = tabs) \<and>
   (\<forall>df name series.
       tabs (upper (sex r), lower (indicator r)) = Some df \<longrightarrow>
       key_column (lower (indicator r)) df = Some (name, series) \<longrightarrow>
       reaches_lookup (lower (indicator r)) r \<longrightarrow>
       list_ex is_text series \<longrightarrow>
       store_after tabs r \<noteq> tabs)"
proof (intro conjI)
  show "snd (api_compute_z c_pow tabs r) = store_after tabs r"
    by (rule api_store_after)
  show "snd (main_compute_z c_pow tabs r) = store_after tabs r"
    by (rule main_store_after)
  show "\<forall>key. key \<noteq> (upper (sex r), lower (indicator r)) \<longrightarrow>
      store_after tabs r key = tabs key"
    by (simp add: store_after_elsewhere)
  show "(\<forall>df name series.
       tabs (upper (sex r), lower (indicator r)) = Some df \<longrightarrow>
       key_column (lower (indicator r)) df = Some (name, series) \<longrightarrow>
       reaches_lookup (lower (indicator r)) r \<longrightarrow>
       \<not> list_ex is_text series) \<longrightarrow>
    store_after tabs r = tabs"
    using store_after_unchanged [of tabs r] by blast
  show "\<forall>df name series.
       tabs (upper (sex r), lower (indicator r)) = Some df \<longrightarrow>
       key_column (lower (indicator r)) df = Some (name, series) \<longrightarrow>
       reaches_lookup (lower (indicator r)) r \<longrightarrow>
       list_ex is_text series \<longrightarrow>
       store_after tabs r \<noteq> tabs"
    using store_after_changed [of tabs r] by blast
qed

theorem request_effect_on_store_witness:
  "snd (api_compute_z rounded_pow (api_tables sample_csv) (boy_length 0 50)) =
     api_tables sample_csv \<and>
   snd (main_compute_z rounded_pow (main_tables sample_csv) (boy_length 0 50)) =
     main_tables sample_csv \<and>
   snd (api_compute_z rounded_pow (api_tables text_csv) (boy_no_age 50)) =
     api_tables text_csv \<and>
   snd (api_compute_z rounded_pow (api_tables text_csv) (boy_length 0 50)) \<noteq>
     api_tables text_csv \<and>
   snd (api_compute_z rounded_pow (api_tables text_csv) (boy_length 0 50)) (''F'', ''wfl'') =
     api_tables text_csv (''F'', ''wfl'')"
proof -
  have num: "\<forall>df name series.
      api_tables sample_csv (upper (sex (boy_length 0 50)), lower (indicator (boy_length 0 50)))
        = Some df \<longrightarrow>
      key_column (lower (indicator (boy_length 0 50))) df = Some (name, series) \<longrightarrow>
      reaches_lookup (lower (indicator (boy_length 0 50))) (boy_length 0 50) \<longrightarrow>
      \<not> list_ex is_text series"
  proof (intro allI impI)
    fix df name series
    assume t: "api_tables sample_csv
        (upper (sex (boy_length 0 50)), lower (indicator (boy_length 0 50))) = Some df"
      and k: "key_column (lower (indicator (boy_length 0 50))) df = Some (name, series)"
    from t have "df = sample_age"
      using sample_boy_length_table [of 0 50] by simp
    with k show "\<not> list_ex is_text series"
      by (auto simp: boy_length_indicator key_column_def sample_age_def is_text_def)
  qed
  have num': "\<forall>df name series.
      main_tables sample_csv (upper (sex (boy_length 0 50)), lower (indicator (boy_length 0 50)))
        = Some df \<longrightarrow>
      key_column (lower (indicator (boy_length 0 50))) df = Some (name, series) \<longrightarrow>
      reaches_lookup (lower (indicator (boy_length 0 50))) (boy_length 0 50) \<longrightarrow>
      \<not> list_ex is_text series"
  proof (intro allI impI)
    fix df name series
    assume t: "main_tables sample_csv
        (upper (sex (boy_length 0 50)), lower (indicator (boy_length 0 50))) = Some df"
      and k: "key_column (lower (indicator (boy_length 0 50))) df = Some (name, series)"
    from t have "df = sample_age"
      using sample_boy_length_table_main [of 0 50] by simp
    with k show "\<not> list_ex is_text series"
      by (auto simp: boy_length_indicator key_column_def sample_age_def is_text_def)
  qed
  have early: "\<forall>df name series.
      api_tables text_csv (upper (sex (boy_no_age 50)), lower (indicator (boy_no_age 50)))
        = Some df \<longrightarrow>
      key_column (lower (indicator (boy_no_age 50))) df = Some (name, series) \<longrightarrow>
      reaches_lookup (lower (indicator (boy_no_age 50))) (boy_no_age 50) \<longrightarrow>
      \<not> list_ex is_text series"
    by (simp add: reaches_lookup_def boy_no_age_def str_defs)
  have tt: "api_tables text_csv
      (upper (sex (boy_length 0 50)), lower (indicator (boy_length 0 50))) = Some text_age"
    by (simp add: api_tables_def text_csv_def boy_length_def str_defs)
  have tk: "key_column (lower (indicator (boy_length 0 50))) text_age =
      Some (''Month'', [CText (Some 0), CText None])"
    by (simp add: boy_length_indicator key_column_def text_age_def)
  have tr: "reaches_lookup (lower (indicator (boy_length 0 50))) (boy_length 0 50)"
    by (simp add: boy_length_indicator reaches_lookup_def) (simp add: boy_length_def)
  have tx: "list_ex is_text [CText (Some 0), CText None]"
    by (simp add: is_text_def)
  have other: "(''F'', ''wfl'') \<noteq>
      (upper (sex (boy_length 0 50)), lower (indicator (boy_length 0 50)))"
    by (simp add: boy_length_indicator)
  note sample_api = request_effect_on_store [of rounded_pow "api_tables sample_csv"
      "boy_length 0 50"]
  note sample_main = request_effect_on_store [of rounded_pow "main_tables sample_csv"
      "boy_length 0 50"]
  note text_early = request_effect_on_store [of rounded_pow "api_tables text_csv"
      "boy_no_age 50"]
  note text_late = request_effect_on_store [of rounded_pow "api_tables text_csv"
      "boy_length 0 50"]
  have 1: "snd (api_compute_z rounded_pow (api_tables sample_csv) (boy_length 0 50)) =
      api_tables sample_csv"
    using sample_api num by presburger
  have 2: "snd (main_compute_z rounded_pow (main_tables sample_csv) (boy_length 0 50)) =
      main_tables sample_csv"
    using sample_main num' by presburger
  have 3: "snd (api_compute_z rounded_pow (api_tables text_csv) (boy_no_age 50)) =
      api_tables text_csv"
    using text_early early by presburger
  have 4: "snd (api_compute_z rounded_pow (api_tables text_csv) (boy_length 0 50)) \<noteq>
      api_tables text_csv"
    using text_late tt tk tr tx by metis
  have 5: "snd (api_compute_z rounded_pow (api_tables text_csv) (boy_length 0 50))
      (''F'', ''wfl'') = api_tables text_csv (''F'', ''wfl'')"
    using text_late other by metis
  show ?thesis using 1 2 3 4 5 by simp
qed

subsection \<open>Letter case of sex and indicator\<close>

lemma upper_lower_char: "upper_char (lower_char c) = upper_char c"
  by (simp add: upper_char_def lower_char_def ascii_lowercase_def ascii_uppercase_def)

lemma upper_lower: "upper (lower s) = upper s"
  by (simp add: upper_def lower_def upper_lower_char)

lemma upper_cong_lower: "lower s = lower t \<Longrightarrow> upper s = upper t"
  by (metis upper_lower)

text \<open>
  Claim C10. The handlers read the sex only through \<^verbatim>\<open>.upper()\<close> and the indicator
  only through \<^verbatim>\<open>.lower()\<close>. Replacing the two fields by strings that differ from
  them in letter case only (equal after lower-casing) changes neither the outcome nor the
  dictionary that comes back.
\<close>

theorem letter_case_is_irrelevant:
  assumes "lower s = lower (sex r)" and "lower i = lower (indicator r)"
  shows "api_compute_z c_pow tabs (r\<lparr>sex := s, indicator := i\<rparr>) = api_compute_z c_pow tabs r \<and>
         main_compute_z c_pow tabs (r\<lparr>sex := s, indicator := i\<rparr>) =
           main_compute_z c_pow tabs r"
  using assms upper_cong_lower [OF assms(1)]
  by (simp add: api_compute_z_def main_compute_z_def Let_def
      cong: option.case_cong prod.case_cong list.case_cong if_cong)

theorem letter_case_is_irrelevant_witness:
  "lower ''m'' = lower ''M'' \<and> lower ''LeNgTh'' = lower ''length'' \<and>
   api_compute_z rounded_pow (api_tables sample_csv)
     ((boy_length 0 50)\<lparr>sex := ''m'', indicator := ''LeNgTh''\<rparr>) =
   api_compute_z rounded_pow (api_tables sample_csv) (boy_length 0 50) \<and>
   main_compute_z rounded_pow (main_tables sample_csv)
     ((boy_length 0 50)\<lparr>sex := ''m'', indicator := ''LeNgTh''\<rparr>) =
   main_compute_z rounded_pow (main_tables sample_csv) (boy_length 0 50)"
proof -
  have s: "lower ''m'' = lower (sex (boy_length 0 50))"
    by (simp add: boy_length_def str_defs)
  have i: "lower ''LeNgTh'' = lower (indicator (boy_length 0 50))"
    by (simp add: boy_length_def str_defs)
  have s': "lower ''m'' = lower ''M''" and i': "lower ''LeNgTh'' = lower ''length''"
    by (simp_all add: str_defs)
  show ?thesis
    using letter_case_is_irrelevant [OF s i, of rounded_pow "api_tables sample_csv"]
      letter_case_is_irrelevant [OF s i, of rounded_pow "main_tables sample_csv"] s' i'
    by simp
qed

subsection \<open>The two dictionaries\<close>

lemma first_value_error:
  "first_value row name = Inl e \<Longrightarrow> e = KeyError \<or> e = IndexError \<or> e = ValueError"
  by (auto simp: first_value_def py_float_def split: option.splits list.splits cell.splits)

lemma extract_lms_error:
  "extract_lms row = Inl e \<Longrightarrow> e = KeyError \<or> e = IndexError \<or> e = ValueError"
  by (auto simp: extract_lms_def split: sum.splits dest: first_value_error)

lemma score_error:
  assumes "score c_pow ind row v = Inl e"
  shows "e = HTTPException 400 ''No data for given age or length'' \<or> e = ZeroDivisionError \<or>
         e = OverflowError \<or> e = TypeError \<or> e = KeyError \<or> e = IndexError \<or>
         e = ValueError"
  using assms
  by (auto simp: score_def split: if_splits sum.splits prod.splits pynum.splits
      dest: lms_z_error extract_lms_error)

lemma api_tables_known:
  assumes "(sx, ind) \<in>
     {(''M'', ''length''), (''M'', ''weight''), (''M'', ''wfl''),
      (''F'', ''length''), (''F'', ''weight''), (''F'', ''wfl'')}"
  shows "\<exists>df. api_tables read_csv (sx, ind) = Some df"
  using assms by (auto simp: api_tables_def)

lemma score_not_unknown:
  "score c_pow ind row v \<noteq> Inl (HTTPException 400 ''Unknown sex or indicator'')"
  using score_error [of c_pow ind row v "HTTPException 400 ''Unknown sex or indicator''"]
  by auto

lemma api_compute_z_known:
  assumes "tabs (upper (sex r), lower (indicator r)) = Some df"
  shows "fst (api_compute_z c_pow tabs r) \<noteq>
         Inl (HTTPException 400 ''Unknown sex or indicator'')"
  using assms score_not_unknown
  by (auto simp: api_compute_z_def Let_def
      split: option.splits if_splits list.splits prod.splits)

lemma api_known_combination:
  assumes "(upper (sex r), lower (indicator r)) \<in>
     {(''M'', ''length''), (''M'', ''weight''), (''M'', ''wfl''),
      (''F'', ''length''), (''F'', ''weight''), (''F'', ''wfl'')}"
  shows "fst (api_compute_z c_pow (api_tables read_csv) r) \<noteq>
         Inl (HTTPException 400 ''Unknown sex or indicator'')"
proof -
  obtain df where "api_tables read_csv (upper (sex r), lower (indicator r)) = Some df"
    using api_tables_known [OF assms] by blast
  then show ?thesis by (rule api_compute_z_known)
qed

text \<open>
  Claim C8 holds for \<^verbatim>\<open>src/api/zscore.py\<close>, whose dictionary has all six keys, but
  not for \<^verbatim>\<open>src/main.py\<close>: its dictionary has no entry \<^verbatim>\<open>("F", "length")\<close>, so
  every length-for-age request for a girl is answered by the 400 error "Unknown sex or
  indicator", whatever the CSV files hold.
\<close>

theorem main_rejects_girl_length:
  "main_tables read_csv (''F'', ''length'') = None \<and>
   fst (main_compute_z c_pow (main_tables read_csv) (girl_length m len)) =
     Inl (HTTPException 400 ''Unknown sex or indicator'')"
  by (simp add: main_compute_z_def main_tables_def girl_length_def str_defs Let_def)

lemma girl_rows:
  "selected_rows ''length'' sample_age (Fin (of_int 0)) =
     Some [(''Month'', [CNum 0]), (''L'', [CNum 1]), (''M'', [CNum 50]),
           (''S'', [CNum (1 / 32)])]"
  by (simp add: selected_rows_def key_column_def sample_age_def df_defs)

text \<open>
  Claim C9 fails on the same request: on the same CSV files the handler of
  \<^verbatim>\<open>src/api/zscore.py\<close> returns a result where the one of \<^verbatim>\<open>src/main.py\<close>
  raises "Unknown sex or indicator".
\<close>

theorem entry_points_differ_on_girl_length:
  "fst (api_compute_z rounded_pow (api_tables sample_csv) (girl_length 0 50)) =
     Inr \<lparr>z_score = Fin 0, classification = ''Normal''\<rparr> \<and>
   fst (main_compute_z rounded_pow (main_tables sample_csv) (girl_length 0 50)) =
     Inl (HTTPException 400 ''Unknown sex or indicator'')"
proof -
  let ?row = "[(''Month'', [CNum 0]), (''L'', [CNum 1]), (''M'', [CNum 50]),
               (''S'', [CNum (1 / 32)])]"
  have t: "api_tables sample_csv
      (upper (sex (girl_length 0 50)), lower (indicator (girl_length 0 50))) = Some sample_age"
    by (simp add: api_tables_def sample_csv_def girl_length_def str_defs)
  have i: "lower (indicator (girl_length 0 50)) = ''length''"
    by (simp add: girl_length_def str_defs)
  have k: "lookup_key (lower (indicator (girl_length 0 50))) (girl_length 0 50) =
      Some (Fin (of_int 0))"
    by (simp add: i lookup_key_def) (simp add: girl_length_def)
  have v: "measurement (lower (indicator (girl_length 0 50))) (girl_length 0 50) =
      Some (Fin 50)"
    by (simp add: i measurement_def) (simp add: girl_length_def)
  have sel: "selected_rows (lower (indicator (girl_length 0 50))) sample_age (Fin (of_int 0))
      = Some ?row"
    using girl_rows by (simp add: i)
  have ne: "\<not> df_empty ?row"
    by (simp add: df_empty_def)
  have lms: "extract_lms ?row = Inr (Fin 1, Fin 50, Fin (1 / 32))"
    by (simp add: df_defs)
  have prod: "float_mul (Fin 1) (Fin (1 / 32)) \<noteq> Fin 0"
    using binary64_32nd by (simp add: float_mul_def)
  have sc: "score rounded_pow (lower (indicator (girl_length 0 50))) ?row (Fin 50) =
      Inr \<lparr>z_score = Fin 0, classification = ''Normal''\<rparr>"
    using score_at_median [OF ne lms, of rounded_pow "lower (indicator (girl_length 0 50))"]
      prod
    by simp
  have a: "fst (api_compute_z rounded_pow (api_tables sample_csv) (girl_length 0 50)) =
      Inr \<lparr>z_score = Fin 0, classification = ''Normal''\<rparr>"
    using api_compute_z_score [of "api_tables sample_csv" "girl_length 0 50" sample_age
        "Fin (of_int 0)" "Fin 50" ?row rounded_pow, OF t k v sel] sc
    by simp
  have m: "fst (main_compute_z rounded_pow (main_tables sample_csv) (girl_length 0 50)) =
      Inl (HTTPException 400 ''Unknown sex or indicator'')"
    by (simp add: main_compute_z_def main_tables_def girl_length_def str_defs Let_def)
  show ?thesis using a m by (rule conjI)
qed

text \<open>
  Apart from the dictionaries, the two handlers differ only in the detail text of the 500
  error for a table without a \<^verbatim>\<open>Month\<close> column: run on one and the same dictionary
  they return the same result or raise errors of the same kind, and leave the same
  dictionary behind.
\<close>

lemma handlers_agree_on_same_tables:
  "map_sum error_kind id (fst (main_compute_z c_pow tabs r)) =
     map_sum error_kind id (fst (api_compute_z c_pow tabs r)) \<and>
   snd (main_compute_z c_pow tabs r) = snd (api_compute_z c_pow tabs r)"
  by (auto simp: main_compute_z_def api_compute_z_def error_kind_def Let_def
      split: option.splits if_splits list.splits prod.splits)

lemma tables_agree_elsewhere:
  "key \<noteq> (''F'', ''length'') \<Longrightarrow> main_tables read_csv key = api_tables read_csv key"
  by (simp add: main_tables_def api_tables_def)

end
